theory Spec2Isabelle
  imports Main "HOL-Library.Word"
begin

unbundle bit_operations_syntax

section \<open>Go strings and the library functions the service calls\<close>

text \<open>
  A Go string is a sequence of bytes; \<open>string\<close> (a list of 8-bit \<open>char\<close>) is
  the same thing, \<open>length\<close> is Go's \<open>len\<close> and \<open>of_char\<close> reads a byte as a number.
\<close>

subsection \<open>unicode/utf8\<close>

definition RuneError :: nat where
  "RuneError = 0xFFFD"

definition RuneSelf :: nat where
  "RuneSelf = 0x80"

text \<open>
  \<open>utf8.DecodeRuneInString\<close>: the first rune of the string and its width in bytes.
  An invalid or truncated encoding is \<open>(RuneError, 1)\<close>, the empty string
  \<open>(RuneError, 0)\<close>. The lead byte decides the size and the range accepted for the
  second byte (Go's tables \<open>first\<close> and \<open>acceptRanges\<close>); \<open>b mod 64\<close> is
  \<open>b & 0x3F\<close>, and the shifted parts do not overlap, so \<open>|\<close> is \<open>+\<close>.
\<close>

fun DecodeRuneInString :: "string \<Rightarrow> nat \<times> nat" where
  "DecodeRuneInString [] = (RuneError, 0)"
| "DecodeRuneInString (c # cs) =
     (let s0 = (of_char c :: nat) in
      if s0 < RuneSelf then (s0, 1)
      else if s0 < 0xC2 \<or> 0xF4 < s0 then (RuneError, 1)
      else
        let sz = (if s0 < 0xE0 then 2 else if s0 < 0xF0 then 3 else 4 :: nat);
            lo = (if s0 = 0xE0 then 0xA0 else if s0 = 0xF0 then 0x90 else 0x80 :: nat);
            hi = (if s0 = 0xED then 0x9F else if s0 = 0xF4 then 0x8F else 0xBF :: nat)
        in
        if length (c # cs) < sz then (RuneError, 1)
        else
          let s1 = (of_char (cs ! 0) :: nat) in
          if s1 < lo \<or> hi < s1 then (RuneError, 1)
          else if sz \<le> 2 then ((s0 mod 32) * 64 + s1 mod 64, 2)
          else
            let s2 = (of_char (cs ! 1) :: nat) in
            if s2 < 0x80 \<or> 0xBF < s2 then (RuneError, 1)
            else if sz \<le> 3 then ((s0 mod 16) * 4096 + (s1 mod 64) * 64 + s2 mod 64, 3)
            else
              let s3 = (of_char (cs ! 2) :: nat) in
              if s3 < 0x80 \<or> 0xBF < s3 then (RuneError, 1)
              else ((s0 mod 8) * 262144 + (s1 mod 64) * 4096 + (s2 mod 64) * 64
                      + s3 mod 64, 4))"

text \<open>
  \<open>string(b)\<close> for a byte \<open>b\<close>: Go converts the integer to the UTF-8 encoding of
  the code point with that number, so a byte below \<open>0x80\<close> is itself and a byte
  from \<open>0x80\<close> on becomes two bytes.
\<close>

definition string_of_byte :: "char \<Rightarrow> string" where
  "string_of_byte c =
     (let b = (of_char c :: nat) in
      if b < RuneSelf then [c]
      else [char_of (0xC0 + b div 64), char_of (0x80 + b mod 64)])"

subsection \<open>strings.EqualFold\<close>

text \<open>
  \<open>strings.EqualFold s t\<close> reads both strings rune by rune and accepts two runes
  when they are equal or lie on one orbit of Unicode simple case folding. Go decides
  the latter on the smaller rune \<open>lo\<close> and the larger \<open>hi\<close>: when both are ASCII,
  \<open>lo\<close> must be an upper-case letter and \<open>hi\<close> its lower-case form; otherwise it
  walks \<open>unicode.SimpleFold\<close> from \<open>lo\<close> upwards until it meets \<open>hi\<close>. For an
  ASCII \<open>lo\<close> the walk is fixed by Go's table \<open>asciiFold\<close> and the orbit entries
  of U+017F and U+212A: the only orbits that leave ASCII are K, k, U+212A and
  S, s, U+017F. For two runes outside ASCII the answer lies in the tables of package
  unicode, taken here as the parameter \<open>uf\<close>.
\<close>

definition foldReaches :: "(nat \<Rightarrow> nat \<Rightarrow> bool) \<Rightarrow> nat \<Rightarrow> nat \<Rightarrow> bool" where
  "foldReaches uf lo hi =
     (if hi < RuneSelf then 0x41 \<le> lo \<and> lo \<le> 0x5A \<and> hi = lo + 0x20
      else if lo < RuneSelf then
        ((lo = 0x4B \<or> lo = 0x6B) \<and> hi = 0x212A) \<or> ((lo = 0x53 \<or> lo = 0x73) \<and> hi = 0x17F)
      else uf lo hi)"

definition runeFoldEq :: "(nat \<Rightarrow> nat \<Rightarrow> bool) \<Rightarrow> nat \<Rightarrow> nat \<Rightarrow> bool" where
  "runeFoldEq uf sr tr = (tr = sr \<or> foldReaches uf (min sr tr) (max sr tr))"

text \<open>The rest of a non-empty string after its first rune.\<close>

definition afterRune :: "string \<Rightarrow> string" where
  "afterRune s = drop (snd (DecodeRuneInString s)) s"

function EqualFold :: "(nat \<Rightarrow> nat \<Rightarrow> bool) \<Rightarrow> string \<Rightarrow> string \<Rightarrow> bool" where
  "EqualFold uf [] t = (t = [])"
| "EqualFold uf (c # cs) [] = False"
| "EqualFold uf (c # cs) (d # ds) =
     (runeFoldEq uf (fst (DecodeRuneInString (c # cs))) (fst (DecodeRuneInString (d # ds)))
      \<and> EqualFold uf (afterRune (c # cs)) (afterRune (d # ds)))"
  by pat_completeness auto
termination
proof (relation "measure (\<lambda>(uf, s, t). length s)")
  show "wf (measure (\<lambda>(uf :: nat \<Rightarrow> nat \<Rightarrow> bool, s :: string, t :: string). length s))"
    by simp
next
  fix uf :: "nat \<Rightarrow> nat \<Rightarrow> bool" and c d :: char and cs ds :: string
  have "1 \<le> snd (DecodeRuneInString (c # cs))"
    by (simp add: Let_def)
  then show "((uf, afterRune (c # cs), afterRune (d # ds)), (uf, c # cs, d # ds))
      \<in> measure (\<lambda>(uf, s, t). length s)"
    by (simp add: afterRune_def del: DecodeRuneInString.simps)
qed

subsection \<open>github.com/gofrs/uuid\<close>

text \<open>
  \<open>uuid.UUID\<close> is \<open>[16]byte\<close>. The values the decoder produces have sixteen
  bytes (\<open>UnmarshalText_length\<close> below).
\<close>

type_synonym UUID = "8 word list"

definition hextable :: string where
  "hextable = ''0123456789abcdef''"

text \<open>\<open>hex.Encode\<close>: two lower-case digits for each byte.\<close>

fun hex_Encode :: "8 word list \<Rightarrow> string" where
  "hex_Encode [] = []"
| "hex_Encode (v # vs) =
     hextable ! unat (drop_bit 4 v) # hextable ! unat (v AND 0x0f) # hex_Encode vs"

text \<open>\<open>UUID.String\<close>: the canonical form, groups of 4, 2, 2, 2 and 6 bytes.\<close>

definition UUID_String :: "UUID \<Rightarrow> string" where
  "UUID_String u =
     hex_Encode (take 4 u) @ ''-'' @ hex_Encode (take 2 (drop 4 u)) @ ''-''
       @ hex_Encode (take 2 (drop 6 u)) @ ''-'' @ hex_Encode (take 2 (drop 8 u)) @ ''-''
       @ hex_Encode (drop 10 u)"

definition fromHexChar :: "char \<Rightarrow> 8 word" where
  "fromHexChar c =
     (let n = (of_char c :: nat) in
      if 0x30 \<le> n \<and> n \<le> 0x39 then of_nat (n - 0x30)
      else if 0x61 \<le> n \<and> n \<le> 0x66 then of_nat (n - 0x61 + 10)
      else if 0x41 \<le> n \<and> n \<le> 0x46 then of_nat (n - 0x41 + 10)
      else 255)"

text \<open>One byte from the two hex digits at offsets \<open>x\<close> and \<open>x + 1\<close>.\<close>

definition hexByteAt :: "string \<Rightarrow> nat \<Rightarrow> 8 word option" where
  "hexByteAt s x =
     (let v1 = fromHexChar (s ! x); v2 = fromHexChar (s ! (x + 1)) in
      if v1 OR v2 = 255 then None else Some (push_bit 4 v1 OR v2))"

definition canonicalOffsets :: "nat list" where
  "canonicalOffsets = [0, 2, 4, 6, 9, 11, 14, 16, 19, 21, 24, 26, 28, 30, 32, 34]"

definition hashOffsets :: "nat list" where
  "hashOffsets = [0, 2, 4, 6, 8, 10, 12, 14, 16, 18, 20, 22, 24, 26, 28, 30]"

text \<open>
  The text after the optional wrapping is removed: 36 bytes with hyphens at 8, 13, 18
  and 23, or 32 hex digits.
\<close>

definition parseBody :: "string \<Rightarrow> UUID option" where
  "parseBody s =
     (if length s = 36 then
        (if s ! 8 \<noteq> CHR ''-'' \<or> s ! 13 \<noteq> CHR ''-'' \<or> s ! 18 \<noteq> CHR ''-'' \<or> s ! 23 \<noteq> CHR ''-''
         then None
         else those (map (hexByteAt s) canonicalOffsets))
      else those (map (hexByteAt s) hashOffsets))"

text \<open>
  \<open>UUID.UnmarshalText\<close> (\<open>Parse\<close>): the length selects the form: 32 hash-like,
  36 canonical, 34 or 38 in braces, 41 or 45 with the prefix \<open>urn:uuid:\<close>; any other
  length is an error. \<open>None\<close> is the returned error.
\<close>

definition UnmarshalText :: "string \<Rightarrow> UUID option" where
  "UnmarshalText s =
     (let n = length s in
      if n = 32 \<or> n = 36 then parseBody s
      else if n = 34 \<or> n = 38 then
        (if s ! 0 \<noteq> CHR ''{'' \<or> s ! (n - 1) \<noteq> CHR ''}'' then None
         else parseBody (take (n - 2) (drop 1 s)))
      else if n = 41 \<or> n = 45 then
        (if take 9 s \<noteq> ''urn:uuid:'' then None else parseBody (drop 9 s))
      else None)"

subsection \<open>strings.Split and strings.ReplaceAll\<close>

text \<open>
  \<open>strings.Split s sep\<close> for a separator of one byte (the service only splits at
  \<open>"@"\<close>): the pieces between the separators, one more than there are separators;
  the empty string gives one empty piece.
\<close>

fun Split :: "string \<Rightarrow> char \<Rightarrow> string list" where
  "Split [] sep = [[]]"
| "Split (c # cs) sep =
     (if c = sep then [] # Split cs sep
      else (c # hd (Split cs sep)) # tl (Split cs sep))"

text \<open>
  \<open>strings.ReplaceAll desc `\n` "\n"\<close>: every backslash followed by \<open>n\<close>,
  read from the left, becomes one line feed.
\<close>

fun cleanDescription :: "string \<Rightarrow> string" where
  "cleanDescription (a # b # cs) =
     (if a = CHR 0x5C \<and> b = CHR ''n'' then CHR 0x0A # cleanDescription cs
      else a # cleanDescription (b # cs))"
| "cleanDescription cs = cs"

subsection \<open>time.Parse and Time.Format for the two layouts of the service\<close>

text \<open>
  The layout \<open>"20060102T150405Z"\<close> is the chunks year (four digits), month and day
  (two digits each), the literal \<open>T\<close>, hour (one or two digits), minute and second
  (two digits each) and the literal \<open>Z\<close>. \<open>time.Parse\<close> takes them from the value
  in this order, checks the range of each number as it goes, accepts a fractional
  second the layout does not mention, refuses text after the end, and checks the day
  against the month last.
\<close>

record Time =
  year :: nat
  month :: nat
  day :: nat
  hour :: nat
  minute :: nat
  second :: nat
  nsec :: nat

definition isDigit :: "string \<Rightarrow> nat \<Rightarrow> bool" where
  "isDigit s i = (i < length s \<and> 0x30 \<le> (of_char (s ! i) :: nat) \<and> (of_char (s ! i) :: nat) \<le> 0x39)"

definition digitVal :: "char \<Rightarrow> nat" where
  "digitVal c = of_char c - 0x30"

text \<open>\<open>getnum\<close>: a number of one or two digits, of exactly two when \<open>fixed\<close>.\<close>

definition getnum :: "string \<Rightarrow> bool \<Rightarrow> (nat \<times> string) option" where
  "getnum s fixed =
     (if \<not> isDigit s 0 then None
      else if \<not> isDigit s 1 then (if fixed then None else Some (digitVal (s ! 0), drop 1 s))
      else Some (digitVal (s ! 0) * 10 + digitVal (s ! 1), drop 2 s))"

text \<open>The chunk \<open>2006\<close>: four bytes, the first a digit, and \<open>atoi\<close> of the four.\<close>

definition getyear :: "string \<Rightarrow> (nat \<times> string) option" where
  "getyear s =
     (if length s < 4 \<or> \<not> isDigit s 0 then None
      else if isDigit s 1 \<and> isDigit s 2 \<and> isDigit s 3 then
        Some (digitVal (s ! 0) * 1000 + digitVal (s ! 1) * 100 + digitVal (s ! 2) * 10
                + digitVal (s ! 3), drop 4 s)
      else None)"

text \<open>\<open>skip\<close> for a prefix of one byte that is not a space.\<close>

definition skip :: "string \<Rightarrow> char \<Rightarrow> string option" where
  "skip s c = (case s of [] \<Rightarrow> None | d # ds \<Rightarrow> if d = c then Some ds else None)"

definition commaOrPeriod :: "char \<Rightarrow> bool" where
  "commaOrPeriod c = (c = CHR ''.'' \<or> c = CHR '','')"

text \<open>The digits of a string from position \<open>n\<close> on: the loop that measures the fraction.\<close>

fun digitsFrom :: "string \<Rightarrow> nat \<Rightarrow> nat \<Rightarrow> nat" where
  "digitsFrom s n 0 = n"
| "digitsFrom s n (Suc k) = (if n < length s \<and> isDigit s n then digitsFrom s (Suc n) k else n)"

fun atoiDigits :: "string \<Rightarrow> nat \<Rightarrow> nat" where
  "atoiDigits [] acc = acc"
| "atoiDigits (c # cs) acc = atoiDigits cs (acc * 10 + digitVal c)"

text \<open>
  \<open>parseNanoseconds value n\<close> on a separator followed by digits only: at most nine
  digits count, scaled to nanoseconds. On such input it does not fail.
\<close>

definition parseNanoseconds :: "string \<Rightarrow> nat \<Rightarrow> nat" where
  "parseNanoseconds s n =
     (let nbytes = (if n > 10 then 10 else n) in
      atoiDigits (take (nbytes - 1) (drop 1 s)) 0 * 10 ^ (10 - nbytes))"

text \<open>The fractional second after the chunk \<open>05\<close>: the nanoseconds and the rest.\<close>

definition fracSecond :: "string \<Rightarrow> nat \<times> string" where
  "fracSecond s =
     (if length s \<ge> 2 \<and> commaOrPeriod (s ! 0) \<and> isDigit s 1 then
        (let n = digitsFrom s 2 (length s) in (parseNanoseconds s n, drop n s))
      else (0, s))"

definition isLeap :: "nat \<Rightarrow> bool" where
  "isLeap y = (y mod 4 = 0 \<and> (y mod 100 \<noteq> 0 \<or> y mod 400 = 0))"

definition daysIn :: "nat \<Rightarrow> nat \<Rightarrow> nat" where
  "daysIn m y =
     (if m = 2 then (if isLeap y then 29 else 28)
      else if m = 4 \<or> m = 6 \<or> m = 9 \<or> m = 11 then 30 else 31)"

text \<open>\<open>time.Parse "20060102T150405Z"\<close>; \<open>None\<close> is the returned error.\<close>

definition time_Parse :: "string \<Rightarrow> Time option" where
  "time_Parse v0 =
     (case getyear v0 of None \<Rightarrow> None | Some (y, v1) \<Rightarrow>
      case getnum v1 True of None \<Rightarrow> None | Some (mo, v2) \<Rightarrow>
      if mo \<le> 0 \<or> 12 < mo then None else
      case getnum v2 True of None \<Rightarrow> None | Some (d, v3) \<Rightarrow>
      case skip v3 CHR ''T'' of None \<Rightarrow> None | Some v4 \<Rightarrow>
      case getnum v4 False of None \<Rightarrow> None | Some (h, v5) \<Rightarrow>
      if 24 \<le> h then None else
      case getnum v5 True of None \<Rightarrow> None | Some (mi, v6) \<Rightarrow>
      if 60 \<le> mi then None else
      case getnum v6 True of None \<Rightarrow> None | Some (se, v7) \<Rightarrow>
      if 60 \<le> se then None else
      (let (ns, v8) = fracSecond v7 in
       case skip v8 CHR ''Z'' of None \<Rightarrow> None | Some v9 \<Rightarrow>
       if v9 \<noteq> [] then None
       else if d < 1 \<or> d > daysIn mo y then None
       else Some \<lparr>year = y, month = mo, day = d, hour = h, minute = mi, second = se,
                  nsec = ns\<rparr>))"

definition digitChar :: "nat \<Rightarrow> char" where
  "digitChar n = char_of (0x30 + n)"

text \<open>\<open>appendInt\<close> with a width: the decimal digits, padded with zeros on the left.\<close>

definition pad2 :: "nat \<Rightarrow> string" where
  "pad2 n = [digitChar (n div 10), digitChar (n mod 10)]"

definition pad4 :: "nat \<Rightarrow> string" where
  "pad4 n = [digitChar (n div 1000), digitChar (n div 100 mod 10), digitChar (n div 10 mod 10),
             digitChar (n mod 10)]"

text \<open>
  \<open>Time.Format "02/01/2006 15:04"\<close> on a time that \<open>time_Parse\<close> returned: every
  field is in its range, so the date is printed as it was read.
\<close>

definition time_Format :: "Time \<Rightarrow> string" where
  "time_Format t =
     pad2 (day t) @ ''/'' @ pad2 (month t) @ ''/'' @ pad4 (year t) @ '' ''
       @ pad2 (hour t) @ '':'' @ pad2 (minute t)"

subsection \<open>encoding/json\<close>

text \<open>
  A JSON text is modelled by the value it denotes; the members of an object keep their
  order and their duplicates. Where the service reads JSON, \<open>None\<close> stands for bytes
  that hold no well-formed JSON value.
\<close>

datatype json =
    JNull
  | JBool bool
  | JNumber string
  | JString string
  | JArray "json list"
  | JObject "(string \<times> json) list"

text \<open>
  The field of a struct that a key of an object is decoded into: the field whose JSON
  name is the key, otherwise the first field whose name equals the key under
  \<open>EqualFold\<close>; a key that matches no field is skipped.
\<close>

definition fieldOf :: "(nat \<Rightarrow> nat \<Rightarrow> bool) \<Rightarrow> string list \<Rightarrow> string \<Rightarrow> string option" where
  "fieldOf uf names key =
     (case find (\<lambda>n. n = key) names of
        Some n \<Rightarrow> Some n
      | None \<Rightarrow> find (\<lambda>n. EqualFold uf n key) names)"

text \<open>
  Decoding one JSON value into a field; \<open>None\<close> is an error of the decoder. \<open>null\<close>
  leaves a string or a bool as it is and sets a pointer to nil; a JSON string goes to a
  \<open>*uuid.UUID\<close> through \<open>UnmarshalText\<close>; every other kind of value is a type
  error.
\<close>

fun decodeString :: "json \<Rightarrow> string \<Rightarrow> string option" where
  "decodeString JNull old = Some old"
| "decodeString (JString s) old = Some s"
| "decodeString _ old = None"

fun decodeBool :: "json \<Rightarrow> bool \<Rightarrow> bool option" where
  "decodeBool JNull old = Some old"
| "decodeBool (JBool b) old = Some b"
| "decodeBool _ old = None"

fun decodeUUIDPtr :: "json \<Rightarrow> UUID option option" where
  "decodeUUIDPtr JNull = Some None"
| "decodeUUIDPtr (JString s) = (case UnmarshalText s of None \<Rightarrow> None | Some u \<Rightarrow> Some (Some u))"
| "decodeUUIDPtr _ = None"

section \<open>The structures of the service\<close>

record Event =
  Id :: string
  Dtstamp :: string
  Dtstart :: string
  Dtend :: string
  Description :: string
  Location :: string
  Created :: string
  LastModified :: string
  ResourceID :: string

text \<open>
  \<open>Alert\<close>; its fields \<open>Id\<close> and \<open>All\<close> are written \<open>AlertId\<close> and \<open>All'\<close>
  (\<open>Id\<close> is a field of \<open>Event\<close> too, \<open>All\<close> is the universal quantifier). A nil
  pointer is \<open>None\<close>.
\<close>

record Alert =
  AlertId :: "UUID option"
  Email :: string
  All' :: bool
  ResourceId :: "UUID option"

record MailMatter =
  Subject :: string

definition zeroEvent :: Event where
  "zeroEvent = \<lparr>Id = [], Dtstamp = [], Dtstart = [], Dtend = [], Description = [],
     Location = [], Created = [], LastModified = [], ResourceID = []\<rparr>"

definition zeroAlert :: Alert where
  "zeroAlert = \<lparr>AlertId = None, Email = [], All' = False, ResourceId = None\<rparr>"

definition eventFields :: "string list" where
  "eventFields = [''UID'', ''DTSTAMP'', ''DTSTART'', ''DTEND'', ''DESCRIPTION'', ''LOCATION'',
     ''CREATED'', ''LAST-MODIFIED'', ''RESOURCE-ID'']"

definition alertFields :: "string list" where
  "alertFields = [''id'', ''email'', ''all'', ''resource_id'']"

definition setEventField :: "Event \<Rightarrow> string \<Rightarrow> json \<Rightarrow> Event option" where
  "setEventField e f v =
     (if f = ''UID'' then map_option (\<lambda>s. e\<lparr>Id := s\<rparr>) (decodeString v (Id e))
      else if f = ''DTSTAMP'' then map_option (\<lambda>s. e\<lparr>Dtstamp := s\<rparr>) (decodeString v (Dtstamp e))
      else if f = ''DTSTART'' then map_option (\<lambda>s. e\<lparr>Dtstart := s\<rparr>) (decodeString v (Dtstart e))
      else if f = ''DTEND'' then map_option (\<lambda>s. e\<lparr>Dtend := s\<rparr>) (decodeString v (Dtend e))
      else if f = ''DESCRIPTION'' then
        map_option (\<lambda>s. e\<lparr>Description := s\<rparr>) (decodeString v (Description e))
      else if f = ''LOCATION'' then map_option (\<lambda>s. e\<lparr>Location := s\<rparr>) (decodeString v (Location e))
      else if f = ''CREATED'' then map_option (\<lambda>s. e\<lparr>Created := s\<rparr>) (decodeString v (Created e))
      else if f = ''LAST-MODIFIED'' then
        map_option (\<lambda>s. e\<lparr>LastModified := s\<rparr>) (decodeString v (LastModified e))
      else map_option (\<lambda>s. e\<lparr>ResourceID := s\<rparr>) (decodeString v (ResourceID e)))"

definition setAlertField :: "Alert \<Rightarrow> string \<Rightarrow> json \<Rightarrow> Alert option" where
  "setAlertField a f v =
     (if f = ''id'' then map_option (\<lambda>p. a\<lparr>AlertId := p\<rparr>) (decodeUUIDPtr v)
      else if f = ''email'' then map_option (\<lambda>s. a\<lparr>Email := s\<rparr>) (decodeString v (Email a))
      else if f = ''all'' then map_option (\<lambda>b. a\<lparr>All' := b\<rparr>) (decodeBool v (All' a))
      else map_option (\<lambda>p. a\<lparr>ResourceId := p\<rparr>) (decodeUUIDPtr v))"

text \<open>The members of an object, in their order; the first error ends the decoding.\<close>

fun decodeEventMembers :: "(nat \<Rightarrow> nat \<Rightarrow> bool) \<Rightarrow> (string \<times> json) list \<Rightarrow> Event \<Rightarrow> Event option" where
  "decodeEventMembers uf [] e = Some e"
| "decodeEventMembers uf ((k, v) # ms) e =
     (case fieldOf uf eventFields k of
        None \<Rightarrow> decodeEventMembers uf ms e
      | Some f \<Rightarrow>
          (case setEventField e f v of
             None \<Rightarrow> None
           | Some e' \<Rightarrow> decodeEventMembers uf ms e'))"

fun decodeAlertMembers :: "(nat \<Rightarrow> nat \<Rightarrow> bool) \<Rightarrow> (string \<times> json) list \<Rightarrow> Alert \<Rightarrow> Alert option" where
  "decodeAlertMembers uf [] a = Some a"
| "decodeAlertMembers uf ((k, v) # ms) a =
     (case fieldOf uf alertFields k of
        None \<Rightarrow> decodeAlertMembers uf ms a
      | Some f \<Rightarrow>
          (case setAlertField a f v of
             None \<Rightarrow> None
           | Some a' \<Rightarrow> decodeAlertMembers uf ms a'))"

text \<open>
  \<open>json.Unmarshal data &event\<close> on a zero \<open>Event\<close>: \<open>null\<close> changes nothing, an
  object is decoded member by member, any other value is a type error.
\<close>

fun Unmarshal_Event :: "(nat \<Rightarrow> nat \<Rightarrow> bool) \<Rightarrow> json option \<Rightarrow> Event option" where
  "Unmarshal_Event uf None = None"
| "Unmarshal_Event uf (Some JNull) = Some zeroEvent"
| "Unmarshal_Event uf (Some (JObject ms)) = decodeEventMembers uf ms zeroEvent"
| "Unmarshal_Event uf (Some _) = None"

fun decodeAlert :: "(nat \<Rightarrow> nat \<Rightarrow> bool) \<Rightarrow> json \<Rightarrow> Alert option" where
  "decodeAlert uf JNull = Some zeroAlert"
| "decodeAlert uf (JObject ms) = decodeAlertMembers uf ms zeroAlert"
| "decodeAlert uf _ = None"

text \<open>
  \<open>Decode &alerts\<close> on a nil slice of \<open>Alert\<close>: \<open>null\<close> leaves it nil, an array
  gives one fresh \<open>Alert\<close> for each element.
\<close>

fun Decode_Alerts :: "(nat \<Rightarrow> nat \<Rightarrow> bool) \<Rightarrow> json option \<Rightarrow> Alert list option" where
  "Decode_Alerts uf None = None"
| "Decode_Alerts uf (Some JNull) = Some []"
| "Decode_Alerts uf (Some (JArray xs)) = those (map (decodeAlert uf) xs)"
| "Decode_Alerts uf (Some _) = None"

section \<open>The world outside the process\<close>

text \<open>
  What the service reads from its environment and from the network, for the time of
  one message: the configuration, the Unicode tables, the answer of the directory, the
  answers of the mail API (which may depend on the requests made before), and the three
  steps of rendering that lie in html/template, in the embedded template files and in
  the frontmatter package. \<open>'t\<close> is the type of a parsed template.
\<close>

datatype 'b http_result =
    TransportError string
  | Response nat 'b

record http_request =
  req_method :: string
  req_url :: string
  req_ContentType :: string
  req_Authorization :: string
  req_body :: json

record 't world =
  configURL :: string
  mailAPIURL :: string
  MAIL_TOKEN :: string
  unicodeFold :: "nat \<Rightarrow> nat \<Rightarrow> bool"
  NewRequest_ok :: "string \<Rightarrow> bool"
  http_Get :: "string \<Rightarrow> json option http_result"
  http_Do :: "http_request list \<Rightarrow> http_request \<Rightarrow> string http_result"
  ParseFS :: "string \<Rightarrow> string + 't"
  Execute :: "'t \<Rightarrow> (string \<Rightarrow> string) \<Rightarrow> (string \<Rightarrow> string) \<Rightarrow> Event \<times> bool \<Rightarrow> string + string"
  frontmatter_Parse :: "string \<Rightarrow> string + MailMatter \<times> string"

section \<open>The functions of cmd/main.go\<close>

subsection \<open>formatICalDate\<close>

definition formatICalDate :: "string \<Rightarrow> string" where
  "formatICalDate input =
     (case time_Parse input of
        None \<Rightarrow> input
      | Some t \<Rightarrow> time_Format t)"

subsection \<open>GetStringFromEmbeddedTemplate\<close>

text \<open>
  The template is parsed with the two helpers in its function map, executed on the body
  (the event and the flag \<open>IsNew\<close>), and the output is cut into front matter and mail
  content. Each of the three steps may fail, and its error is returned.
\<close>

definition GetStringFromEmbeddedTemplate ::
    "'t world \<Rightarrow> string \<Rightarrow> Event \<times> bool \<Rightarrow> string + string \<times> MailMatter" where
  "GetStringFromEmbeddedTemplate w templatePath body =
     (case ParseFS w templatePath of
        Inl err \<Rightarrow> Inl err
      | Inr temp \<Rightarrow>
          (case Execute w temp formatICalDate cleanDescription body of
             Inl err \<Rightarrow> Inl err
           | Inr tpl \<Rightarrow>
               (case frontmatter_Parse w tpl of
                  Inl err \<Rightarrow> Inl err
                | Inr (matter, mailContent) \<Rightarrow> Inr (mailContent, matter))))"

subsection \<open>sendEmail\<close>

datatype send_error =
    ErrMarshal string
  | ErrNewRequest
  | ErrNoToken
  | ErrDo string
  | ErrStatus nat string

text \<open>
  \<open>json.Marshal\<close> of a map from strings to strings: it writes the keys in sorted
  order and cannot fail. The payload below is given in that order.
\<close>

definition json_Marshal :: "(string \<times> json) list \<Rightarrow> string + json" where
  "json_Marshal m = Inr (JObject m)"

text \<open>
  The result is the returned error (\<open>None\<close> is \<open>nil\<close>) and the requests handed to
  \<open>client.Do\<close>: none or one. \<open>hist\<close> is the list of the requests made before.
\<close>

definition sendEmail ::
    "'t world \<Rightarrow> http_request list \<Rightarrow> string \<Rightarrow> string \<Rightarrow> string
      \<Rightarrow> send_error option \<times> http_request list" where
  "sendEmail w hist to subject content =
     (case json_Marshal [(''content'', JString content), (''recipient'', JString to),
                         (''subject'', JString subject)] of
        Inl err \<Rightarrow> (Some (ErrMarshal err), [])
      | Inr jsonPayload \<Rightarrow>
          if \<not> NewRequest_ok w (mailAPIURL w) then (Some ErrNewRequest, [])
          else
            let token = MAIL_TOKEN w in
            if token = [] then (Some ErrNoToken, [])
            else
              let req = \<lparr>req_method = ''POST'', req_url = mailAPIURL w,
                         req_ContentType = ''application/json'', req_Authorization = token,
                         req_body = jsonPayload\<rparr>
              in
              (case http_Do w hist req of
                 TransportError err \<Rightarrow> (Some (ErrDo err), [req])
               | Response status body \<Rightarrow>
                   if status \<noteq> 204 then (Some (ErrStatus status body), [req])
                   else (None, [req])))"

subsection \<open>fetchAlerts\<close>

datatype fetch_error =
    ErrGet string
  | ErrStatusCode nat
  | ErrDecode

definition fetchAlerts :: "'t world \<Rightarrow> fetch_error + Alert list" where
  "fetchAlerts w =
     (case http_Get w (configURL w) of
        TransportError err \<Rightarrow> Inl (ErrGet err)
      | Response status body \<Rightarrow>
          if status \<noteq> 200 then Inl (ErrStatusCode status)
          else
            (case Decode_Alerts (unicodeFold w) body of
               None \<Rightarrow> Inl ErrDecode
             | Some alerts \<Rightarrow> Inr alerts))"

subsection \<open>maskEmail\<close>

text \<open>
  Indexing a string outside its bounds is a run-time panic that carries the index and
  the length.
\<close>

datatype panic = IndexOutOfRange int nat

definition byteAt :: "string \<Rightarrow> int \<Rightarrow> panic + char" where
  "byteAt s i =
     (if 0 \<le> i \<and> i < int (length s) then Inr (s ! nat i)
      else Inl (IndexOutOfRange i (length s)))"

definition maskEmail :: "string \<Rightarrow> panic + string" where
  "maskEmail email =
     (let parts = Split email CHR ''@'' in
      if length parts \<noteq> 2 then Inr ''***@***''
      else
        (case byteAt (parts ! 0) 0 of
           Inl p \<Rightarrow> Inl p
         | Inr a \<Rightarrow>
             (case byteAt (parts ! 1) (int (length (parts ! 1)) - 1) of
                Inl p \<Rightarrow> Inl p
              | Inr b \<Rightarrow> Inr (string_of_byte a @ ''***@***'' @ string_of_byte b))))"

subsection \<open>processMessage\<close>

text \<open>
  What one run of \<open>processMessage\<close> leaves behind: the lines it logged, the calls of
  \<open>GetStringFromEmbeddedTemplate\<close> (template path and body), the calls of
  \<open>sendEmail\<close> (recipient, subject, content) and the requests sent to the mail API.
\<close>

datatype log_entry =
    LogDecodeError
  | LogReceived string bool
  | LogFetchError fetch_error
  | LogTemplateError "UUID option" string
  | LogSendFailure string "UUID option" send_error
  | LogSent string

record trace =
  logs :: "log_entry list"
  renders :: "(string \<times> Event \<times> bool) list"
  sends :: "(string \<times> string \<times> string) list"
  posts :: "http_request list"

definition emptyTrace :: trace where
  "emptyTrace = \<lparr>logs = [], renders = [], sends = [], posts = []\<rparr>"

definition logLine :: "log_entry \<Rightarrow> trace \<Rightarrow> trace" where
  "logLine l t = t\<lparr>logs := logs t @ [l]\<rparr>"

text \<open>The condition \<open>apply\<close> of the loop.\<close>

definition applies :: "(nat \<Rightarrow> nat \<Rightarrow> bool) \<Rightarrow> Event \<Rightarrow> Alert \<Rightarrow> bool" where
  "applies uf event alert =
     (All' alert \<or>
      (case ResourceId alert of
         None \<Rightarrow> False
       | Some u \<Rightarrow> EqualFold uf (ResourceID event) (UUID_String u)))"

definition templatePath :: string where
  "templatePath = ''templates/alert.txt''"

text \<open>
  One turn of the loop. The second component is \<open>None\<close> when the turn ends (at the end
  of the body or at a \<open>continue\<close>) and the panic when \<open>maskEmail\<close> panics while
  the log line is being built.
\<close>

definition processAlert ::
    "'t world \<Rightarrow> Event \<Rightarrow> bool \<Rightarrow> Alert \<Rightarrow> trace \<Rightarrow> trace \<times> panic option" where
  "processAlert w event isNew alert t =
     (if applies (unicodeFold w) event alert then
        let t1 = t\<lparr>renders := renders t @ [(templatePath, event, isNew)]\<rparr> in
        (case GetStringFromEmbeddedTemplate w templatePath (event, isNew) of
           Inl err \<Rightarrow> (logLine (LogTemplateError (AlertId alert) err) t1, None)
         | Inr (htmlContent, matter) \<Rightarrow>
             let (err, reqs) = sendEmail w (posts t1) (Email alert) (Subject matter) htmlContent;
                 t2 = t1\<lparr>sends := sends t1 @ [(Email alert, Subject matter, htmlContent)],
                         posts := posts t1 @ reqs\<rparr>
             in
             (case err of
                Some e \<Rightarrow>
                  (case maskEmail (Email alert) of
                     Inl p \<Rightarrow> (t2, Some p)
                   | Inr masked \<Rightarrow> (logLine (LogSendFailure masked (AlertId alert) e) t2, None))
              | None \<Rightarrow>
                  (case maskEmail (Email alert) of
                     Inl p \<Rightarrow> (t2, Some p)
                   | Inr masked \<Rightarrow> (logLine (LogSent masked) t2, None))))
      else (t, None))"

text \<open>The loop over the alerts; a panic ends it.\<close>

fun processAlerts ::
    "'t world \<Rightarrow> Event \<Rightarrow> bool \<Rightarrow> Alert list \<Rightarrow> trace \<Rightarrow> trace \<times> panic option" where
  "processAlerts w event isNew [] t = (t, None)"
| "processAlerts w event isNew (alert # alerts) t =
     (case processAlert w event isNew alert t of
        (t', Some p) \<Rightarrow> (t', Some p)
      | (t', None) \<Rightarrow> processAlerts w event isNew alerts t')"

definition processMessage :: "'t world \<Rightarrow> json option \<Rightarrow> trace \<times> panic option" where
  "processMessage w data =
     (case Unmarshal_Event (unicodeFold w) data of
        None \<Rightarrow> (logLine LogDecodeError emptyTrace, None)
      | Some event \<Rightarrow>
          let isNew = (LastModified event = []);
              t = logLine (LogReceived (Id event) isNew) emptyTrace
          in
          (case fetchAlerts w of
             Inl err \<Rightarrow> (logLine (LogFetchError err) t, None)
           | Inr alerts \<Rightarrow> processAlerts w event isNew alerts t))"

section \<open>The matching predicate as the specification words it\<close>

text \<open>
  The specification compares the resource identifier of the event with the one of the
  subscription without regard to case. The identifier of a subscription is a UUID, read
  here in its canonical text; case is the case of the ASCII letters.
\<close>

definition asciiLower :: "char \<Rightarrow> char" where
  "asciiLower c =
     (if 0x41 \<le> (of_char c :: nat) \<and> (of_char c :: nat) \<le> 0x5A
      then char_of ((of_char c :: nat) + 0x20) else c)"

definition equalsIgnoreCase :: "string \<Rightarrow> string \<Rightarrow> bool" where
  "equalsIgnoreCase s t = (map asciiLower s = map asciiLower t)"

definition matches_spec :: "Event \<Rightarrow> Alert \<Rightarrow> bool" where
  "matches_spec event sub =
     (All' sub \<or>
      (case ResourceId sub of
         None \<Rightarrow> False
       | Some rid \<Rightarrow> equalsIgnoreCase (ResourceID event) (UUID_String rid)))"

text \<open>The bytes of a canonical UUID text: digits, the letters a to f, the hyphen.\<close>

definition canonical :: "char \<Rightarrow> bool" where
  "canonical d =
     (let n = (of_char d :: nat) in
      (0x30 \<le> n \<and> n \<le> 0x39) \<or> (0x61 \<le> n \<and> n \<le> 0x66) \<or> n = 0x2D)"

section \<open>Concrete inputs\<close>

text \<open>Unicode tables in which no two runes outside ASCII fold together.\<close>

definition noFold :: "nat \<Rightarrow> nat \<Rightarrow> bool" where
  "noFold lo hi = False"

definition room :: UUID where
  "room = [0x6b, 0xa7, 0xb8, 0x10, 0x9d, 0xad, 0x11, 0xd1, 0x80, 0xb4, 0x00, 0xc0, 0x4f, 0xd4,
     0x30, 0xc8]"

definition roomEvent :: Event where
  "roomEvent = zeroEvent\<lparr>Id := ''ev-1'', ResourceID := ''6BA7B810-9DAD-11D1-80B4-00C04FD430C8''\<rparr>"

definition bob :: Alert where
  "bob = \<lparr>AlertId = None, Email = ''bob@x.com'', All' = False, ResourceId = Some room\<rparr>"

definition eve :: Alert where
  "eve = \<lparr>AlertId = None, Email = ''eve@x.com'', All' = True, ResourceId = None\<rparr>"

text \<open>The message of an event of that room, and the message of the scenario of the claims.\<close>

definition roomMessage :: "json option" where
  "roomMessage = Some (JObject [(''UID'', JString ''ev-1''), (''LAST-MODIFIED'', JString []),
     (''RESOURCE-ID'', JString ''6BA7B810-9DAD-11D1-80B4-00C04FD430C8'')])"

definition r1Message :: "json option" where
  "r1Message = Some (JObject [(''UID'', JString ''ev-1''), (''RESOURCE-ID'', JString ''R1'')])"

text \<open>
  Three directory bodies: the one of the scenario of the claims, the same with a UUID
  as resource identifier, and one whose first address has an empty domain.
\<close>

definition r1Directory :: "json option" where
  "r1Directory = Some (JArray
     [JObject [(''all'', JBool False), (''resource_id'', JString ''r1''),
               (''email'', JString ''bob@x.com'')],
      JObject [(''all'', JBool True), (''email'', JString ''eve@x.com'')]])"

definition roomDirectory :: "json option" where
  "roomDirectory = Some (JArray
     [JObject [(''all'', JBool False),
               (''resource_id'', JString ''6ba7b810-9dad-11d1-80b4-00c04fd430c8''),
               (''email'', JString ''bob@x.com'')],
      JObject [(''all'', JBool True), (''email'', JString ''eve@x.com'')]])"

definition brokenDirectory :: "json option" where
  "brokenDirectory = Some (JArray
     [JObject [(''all'', JBool True), (''email'', JString ''bob@'')],
      JObject [(''all'', JBool True), (''email'', JString ''eve@x.com'')]])"

text \<open>Two mail APIs: one refuses the mails to bob, the other refuses every mail.\<close>

definition recipientOf :: "http_request \<Rightarrow> json option" where
  "recipientOf req = (case req_body req of JObject ms \<Rightarrow> map_of ms ''recipient'' | _ \<Rightarrow> None)"

definition refuseBob :: "http_request list \<Rightarrow> http_request \<Rightarrow> string http_result" where
  "refuseBob hist req =
     (if recipientOf req = Some (JString ''bob@x.com'') then Response 500 ''refused''
      else Response 204 [])"

definition refuseAll :: "http_request list \<Rightarrow> http_request \<Rightarrow> string http_result" where
  "refuseAll hist req = Response 500 ''refused''"

text \<open>
  A world with a given answer of the directory and a given mail API, in which the
  token is set and rendering succeeds.
\<close>

definition serviceWorld ::
    "json option http_result \<Rightarrow> (http_request list \<Rightarrow> http_request \<Rightarrow> string http_result)
      \<Rightarrow> unit world" where
  "serviceWorld directory mailAPI =
     \<lparr>configURL = ''http://localhost:8080/alerts'',
      mailAPIURL = ''https://mail-api.edu.forestier.re/mail'',
      MAIL_TOKEN = ''token'',
      unicodeFold = noFold,
      NewRequest_ok = (\<lambda>url. True),
      http_Get = (\<lambda>url. directory),
      http_Do = mailAPI,
      ParseFS = (\<lambda>path. Inr ()),
      Execute = (\<lambda>temp formatDate clean body. Inr ''rendered''),
      frontmatter_Parse = (\<lambda>tpl. Inr (\<lparr>Subject = ''Alerte''\<rparr>, ''Bonjour''))\<rparr>"

text \<open>The request that \<open>sendEmail\<close> builds in that world.\<close>

definition mailTo :: "string \<Rightarrow> http_request" where
  "mailTo to =
     \<lparr>req_method = ''POST'', req_url = ''https://mail-api.edu.forestier.re/mail'',
      req_ContentType = ''application/json'', req_Authorization = ''token'',
      req_body = JObject [(''content'', JString ''Bonjour''), (''recipient'', JString to),
                          (''subject'', JString ''Alerte'')]\<rparr>"

section \<open>Properties of the library functions\<close>

declare DecodeRuneInString.simps [simp del]

lemma mod_in_block: "n * q \<le> a \<Longrightarrow> a < n * Suc q \<Longrightarrow> a mod n = a - n * q" for a n q :: nat
proof -
  assume h: "n * q \<le> a" "a < n * Suc q"
  then have "a div n = q" by (intro div_nat_eqI) simp_all
  moreover have "n * (a div n) + a mod n = a" by simp
  ultimately show ?thesis by (metis add_diff_cancel_left')
qed

lemma rune_of_two_bytes:
  "0xC2 \<le> a \<Longrightarrow> a < 0xE0 \<Longrightarrow> 0x80 \<le> (a mod 32) * 64 + b mod 64" for a b :: nat
  using mod_in_block [of 32 6 a] by simp

lemma rune_of_three_bytes:
  "0xE0 \<le> a \<Longrightarrow> a < 0xF0 \<Longrightarrow> (a = 0xE0 \<longrightarrow> 0xA0 \<le> b) \<Longrightarrow> b \<le> 0xBF
    \<Longrightarrow> 0x80 \<le> (a mod 16) * 4096 + (b mod 64) * 64 + d mod 64" for a b d :: nat
  using mod_in_block [of 16 14 a] mod_in_block [of 64 2 b] by (cases "a = 0xE0") simp_all

lemma rune_of_four_bytes:
  "0xF0 \<le> a \<Longrightarrow> a \<le> 0xF4 \<Longrightarrow> (a = 0xF0 \<longrightarrow> 0x90 \<le> b) \<Longrightarrow> b \<le> 0xBF
    \<Longrightarrow> 0x80 \<le> (a mod 8) * 262144 + (b mod 64) * 4096 + (d mod 64) * 64 + e mod 64"
  for a b d e :: nat
  using mod_in_block [of 8 30 a] mod_in_block [of 64 2 b] by (cases "a = 0xF0") simp_all

text \<open>An ASCII byte is its own rune; a rune that starts with any other byte is not ASCII.\<close>

lemma Decode_ascii:
  "(of_char c :: nat) < 0x80 \<Longrightarrow> DecodeRuneInString (c # cs) = (of_char c, 1)"
  by (simp add: RuneSelf_def DecodeRuneInString.simps)

lemma Decode_nonascii:
  assumes "0x80 \<le> (of_char c :: nat)"
  shows "0x80 \<le> fst (DecodeRuneInString (c # cs))"
proof -
  let ?a = "of_char c :: nat"
  consider "?a < 0xC2 \<or> 0xF4 < ?a" | "0xC2 \<le> ?a" "?a < 0xE0" | "0xE0 \<le> ?a" "?a < 0xF0"
    | "0xF0 \<le> ?a" "?a \<le> 0xF4"
    by linarith
  then show ?thesis
  proof cases
    case 1
    then show ?thesis
      using assms by (auto simp: RuneSelf_def RuneError_def DecodeRuneInString.simps)
  next
    case 2
    then show ?thesis
      using assms rune_of_two_bytes [of ?a]
      by (simp add: Let_def RuneSelf_def RuneError_def DecodeRuneInString.simps)
  next
    case 3
    then show ?thesis
      using assms rune_of_three_bytes [of ?a "of_char (cs ! 0)" "of_char (cs ! Suc 0)"]
      by (auto simp: Let_def RuneSelf_def RuneError_def DecodeRuneInString.simps)
  next
    case 4
    then show ?thesis
      using assms
        rune_of_four_bytes [of ?a "of_char (cs ! 0)" "of_char (cs ! Suc 0)" "of_char (cs ! 2)"]
      by (auto simp: Let_def RuneSelf_def RuneError_def DecodeRuneInString.simps)
  qed
qed

lemma afterRune_ascii: "(of_char c :: nat) < 0x80 \<Longrightarrow> afterRune (c # cs) = cs"
  by (simp add: afterRune_def Decode_ascii)

lemma of_char_asciiLower:
  "(of_char (asciiLower c) :: nat) =
     (if 0x41 \<le> (of_char c :: nat) \<and> (of_char c :: nat) \<le> 0x5A then of_char c + 0x20
      else of_char c)"
  by (simp add: asciiLower_def)

lemma asciiLower_canonical: "canonical d \<Longrightarrow> asciiLower d = d"
  by (auto simp: canonical_def asciiLower_def Let_def)

lemma canonical_ascii: "canonical d \<Longrightarrow> (of_char d :: nat) < 0x80"
  by (auto simp: canonical_def Let_def)

lemma runeFoldEq_canonical:
  assumes "canonical d"
  shows "runeFoldEq uf (fst (DecodeRuneInString (c # cs))) (of_char d) = (asciiLower c = d)"
proof (cases "(of_char c :: nat) < 0x80")
  case True
  have "(asciiLower c = d) = ((of_char (asciiLower c) :: nat) = of_char d)"
    by simp
  also have "\<dots> = runeFoldEq uf (of_char c) (of_char d)"
    using assms True
    unfolding of_char_asciiLower runeFoldEq_def foldReaches_def canonical_def Let_def RuneSelf_def
    by (auto simp: min_def max_def)
  finally show ?thesis using True by (simp add: Decode_ascii)
next
  case False
  then have big: "0x80 \<le> fst (DecodeRuneInString (c # cs))"
    using Decode_nonascii [of c cs] by simp
  have "asciiLower c \<noteq> d"
    using assms False by (auto simp: asciiLower_def canonical_def Let_def)
  moreover have "\<not> runeFoldEq uf (fst (DecodeRuneInString (c # cs))) (of_char d)"
    using assms big
    unfolding runeFoldEq_def foldReaches_def canonical_def Let_def RuneSelf_def
    by (auto simp: min_def max_def)
  ultimately show ?thesis by simp
qed

text \<open>
  Against a text of canonical bytes, \<open>EqualFold\<close> is equality after the ASCII letters
  of the other string are put in lower case: no rune outside ASCII folds to a digit, to
  a letter from a to f or to the hyphen.
\<close>

lemma EqualFold_canonical:
  "\<forall>d \<in> set t. canonical d \<Longrightarrow> EqualFold uf s t = (map asciiLower s = t)"
proof (induction t arbitrary: s)
  case Nil
  then show ?case by (cases s) simp_all
next
  case (Cons d ds)
  then have d: "canonical d" and ds: "\<forall>x \<in> set ds. canonical x"
    by simp_all
  show ?case
  proof (cases s)
    case Nil
    then show ?thesis by simp
  next
    case (Cons c cs)
    show ?thesis
    proof (cases "asciiLower c = d")
      case True
      then have "(of_char c :: nat) < 0x80"
        using d by (auto simp: asciiLower_def canonical_def Let_def split: if_splits)
      then show ?thesis
        using True d Cons.IH [OF ds, of cs] runeFoldEq_canonical [OF d, of uf c cs]
        by (simp add: Cons Decode_ascii afterRune_ascii canonical_ascii)
    next
      case False
      then show ?thesis
        using d runeFoldEq_canonical [OF d, of uf c cs]
        by (simp add: Cons Decode_ascii canonical_ascii)
    qed
  qed
qed

lemma nibble_hi: "unat (drop_bit 4 (v :: 8 word)) < 16"
proof -
  have "unat (drop_bit 4 v) = unat v div 2 ^ 4"
    by (simp add: drop_bit_eq_div unat_div)
  moreover have "unat v < 256" using unsigned_less [of v] by simp
  ultimately show ?thesis by simp
qed

lemma nibble_lo: "unat ((v :: 8 word) AND 0x0f) < 16"
proof -
  have "unat (v AND 15) \<le> unat (15 :: 8 word)"
    by (rule word_and_le1 [THEN word_le_nat_alt [THEN iffD1]])
  then show ?thesis by simp
qed

lemma hextable_canonical: "n < 16 \<Longrightarrow> canonical (hextable ! n)"
proof -
  assume "n < 16"
  then have "hextable ! n \<in> set hextable"
    by (intro nth_mem) (simp add: hextable_def)
  moreover have "\<forall>d \<in> set hextable. canonical d"
    by (simp add: hextable_def canonical_def)
  ultimately show ?thesis by blast
qed

lemma hex_Encode_canonical: "\<forall>d \<in> set (hex_Encode vs). canonical d"
  by (induction vs) (simp_all add: hextable_canonical nibble_hi nibble_lo)

lemma UUID_String_canonical: "\<forall>d \<in> set (UUID_String u). canonical d"
  using hex_Encode_canonical by (auto simp: UUID_String_def canonical_def)

lemma EqualFold_UUID_String:
  "EqualFold uf s (UUID_String u) = (map asciiLower s = UUID_String u)"
  by (rule EqualFold_canonical [OF UUID_String_canonical])

lemma asciiLower_UUID_String: "map asciiLower (UUID_String u) = UUID_String u"
  using UUID_String_canonical [of u] by (simp add: map_idI asciiLower_canonical)

lemma UUID_String_room: "UUID_String room = ''6ba7b810-9dad-11d1-80b4-00c04fd430c8''"
  by (simp add: UUID_String_def room_def hextable_def)

section \<open>Properties of time.Parse\<close>

lemma of_char_digitChar: "k < 10 \<Longrightarrow> (of_char (digitChar k) :: nat) = 0x30 + k"
  by (simp add: digitChar_def)

lemma digitVal_digitChar: "k < 10 \<Longrightarrow> digitVal (digitChar k) = k"
  by (simp add: digitVal_def of_char_digitChar)

lemma getnum_pad2:
  assumes "n < 100"
  shows "getnum (pad2 n @ rest) fixed = Some (n, rest)"
proof -
  have "n div 10 < 10" "n mod 10 < 10" using assms by simp_all
  then show ?thesis
    by (simp add: getnum_def pad2_def isDigit_def of_char_digitChar digitVal_digitChar)
qed

lemma decimal4:
  "y div 1000 * 1000 + y div 100 mod 10 * 100 + y div 10 mod 10 * 10 + y mod 10 = y" for y :: nat
proof -
  have a: "y div 10 div 10 = y div 100" and b: "y div 100 div 10 = y div 1000"
    by (simp_all add: div_mult2_eq [symmetric])
  have "y = y div 10 * 10 + y mod 10" by simp
  moreover have "y div 10 = y div 100 * 10 + y div 10 mod 10"
    using div_mult_mod_eq [of "y div 10" 10] by (simp only: a)
  moreover have "y div 100 = y div 1000 * 10 + y div 100 mod 10"
    using div_mult_mod_eq [of "y div 100" 10] by (simp only: b)
  ultimately show ?thesis by linarith
qed

lemma getyear_pad4:
  assumes "y < 10000"
  shows "getyear (pad4 y @ rest) = Some (y, rest)"
proof -
  have d: "y div 1000 < 10" "y div 100 mod 10 < 10" "y div 10 mod 10 < 10" "y mod 10 < 10"
    using assms by simp_all
  have m: "k mod 10 \<le> 9" for k :: nat
  proof -
    have "k mod 10 < 10" by simp
    then show ?thesis by linarith
  qed
  from d decimal4 [of y] show ?thesis
    by (simp add: getyear_def pad4_def isDigit_def of_char_digitChar digitVal_digitChar m)
qed

lemma time_Parse_fields:
  assumes "y < 10000" "1 \<le> mo" "mo \<le> 12" "1 \<le> d" "d \<le> daysIn mo y" "h < 24" "mi < 60" "se < 60"
  shows "time_Parse (pad4 y @ pad2 mo @ pad2 d @ ''T'' @ pad2 h @ pad2 mi @ pad2 se @ ''Z'')
           = Some \<lparr>year = y, month = mo, day = d, hour = h, minute = mi, second = se, nsec = 0\<rparr>"
proof -
  have "d \<le> 31" using assms(5) by (simp add: daysIn_def split: if_splits)
  then have small: "mo < 100" "d < 100" "h < 100" "mi < 100" "se < 100"
    using assms by simp_all
  have frac: "fracSecond ''Z'' = (0, ''Z'')"
    by (simp add: fracSecond_def)
  show ?thesis
    using assms
    by (simp add: time_Parse_def getyear_pad4 getnum_pad2 small skip_def frac)
qed

lemma digitChar_values:
  "digitChar 0 = CHR ''0''" "digitChar 1 = CHR ''1''" "digitChar (Suc 0) = CHR ''1''"
  "digitChar 2 = CHR ''2''" "digitChar 3 = CHR ''3''" "digitChar 4 = CHR ''4''"
  "digitChar 5 = CHR ''5''" "digitChar 6 = CHR ''6''" "digitChar 7 = CHR ''7''"
  "digitChar 8 = CHR ''8''" "digitChar 9 = CHR ''9''"
  by (simp_all add: digitChar_def char_of_eq_iff)

lemma formatICalDate_example: "formatICalDate ''20240115T093000Z'' = ''15/01/2024 09:30''"
  using time_Parse_fields [of 2024 1 15 9 30 0]
  by (simp add: formatICalDate_def time_Format_def pad2_def pad4_def digitChar_values
        daysIn_def)

lemma time_Parse_not_a_date: "time_Parse ''not-a-date'' = None"
  by (simp add: time_Parse_def getyear_def isDigit_def)

section \<open>Properties of maskEmail\<close>

lemma Split_not_Nil: "Split s sep \<noteq> []"
  by (induction s) simp_all

lemma Split_without_sep: "sep \<notin> set s \<Longrightarrow> Split s sep = [s]"
  by (induction s) auto

lemma Split_at_first_sep: "sep \<notin> set l \<Longrightarrow> Split (l @ sep # r) sep = l # Split r sep"
  by (induction l) auto

lemma length_Split: "length (Split s sep) = Suc (count_list s sep)"
proof (induction s)
  case Nil
  then show ?case by simp
next
  case (Cons c cs)
  then show ?case using Split_not_Nil [of cs sep] by (cases "Split cs sep") auto
qed

lemma Split_one_sep:
  "sep \<notin> set l \<Longrightarrow> sep \<notin> set d \<Longrightarrow> Split (l @ sep # d) sep = [l, d]"
  by (simp add: Split_at_first_sep Split_without_sep)

lemma string_of_byte_ascii: "(of_char c :: nat) < 0x80 \<Longrightarrow> string_of_byte c = [c]"
  by (simp add: string_of_byte_def RuneSelf_def)

lemma maskEmail_one_at:
  assumes "CHR ''@'' \<notin> set l" "CHR ''@'' \<notin> set d" "l \<noteq> []" "d \<noteq> []"
  shows "maskEmail (l @ CHR ''@'' # d)
           = Inr (string_of_byte (hd l) @ ''***@***'' @ string_of_byte (last d))"
proof -
  have parts: "Split (l @ CHR ''@'' # d) CHR ''@'' = [l, d]"
    using assms by (simp add: Split_one_sep)
  have first: "byteAt l 0 = Inr (hd l)"
    using assms by (simp add: byteAt_def hd_conv_nth)
  have "nat (int (length d) - 1) = length d - 1" by simp
  then have final: "byteAt d (int (length d) - 1) = Inr (last d)"
    using assms by (simp add: byteAt_def last_conv_nth)
  show ?thesis
    by (simp add: maskEmail_def parts first final)
qed

lemma maskEmail_empty_local:
  "CHR ''@'' \<notin> set d \<Longrightarrow> maskEmail (CHR ''@'' # d) = Inl (IndexOutOfRange 0 0)"
  using Split_one_sep [of "CHR ''@''" "[]" d] by (simp add: maskEmail_def byteAt_def)

lemma maskEmail_empty_domain:
  "CHR ''@'' \<notin> set l \<Longrightarrow> l \<noteq> [] \<Longrightarrow> maskEmail (l @ ''@'') = Inl (IndexOutOfRange (- 1) 0)"
  using Split_one_sep [of "CHR ''@''" l "[]"] by (simp add: maskEmail_def byteAt_def)

lemma maskEmail_bob: "maskEmail ''bob@x.com'' = Inr ''b***@***m''"
  using maskEmail_one_at [of "''bob''" "''x.com''"] by (simp add: string_of_byte_ascii)

lemma maskEmail_eve: "maskEmail ''eve@x.com'' = Inr ''e***@***m''"
  using maskEmail_one_at [of "''eve''" "''x.com''"] by (simp add: string_of_byte_ascii)

section \<open>Properties of the decoder\<close>

lemma those_length: "those xs = Some ys \<Longrightarrow> length ys = length xs"
  by (induction xs arbitrary: ys) (auto split: option.splits)

lemma parseBody_length:
  assumes "parseBody s = Some u"
  shows "length u = 16"
proof -
  have "those (map (hexByteAt s) canonicalOffsets) = Some u
      \<or> those (map (hexByteAt s) hashOffsets) = Some u"
    using assms unfolding parseBody_def by (metis option.distinct(1))
  then have "length u = length canonicalOffsets \<or> length u = length hashOffsets"
    using those_length by fastforce
  then show ?thesis by (simp add: canonicalOffsets_def hashOffsets_def)
qed

lemma UnmarshalText_length: "UnmarshalText s = Some u \<Longrightarrow> length u = 16"
  unfolding UnmarshalText_def Let_def
  by (metis option.distinct(1) parseBody_length)

lemma fieldOf_resource_id: "fieldOf uf alertFields ''resource_id'' = Some ''resource_id''"
  by (simp add: fieldOf_def alertFields_def)

lemma decodeAlertMembers_bad_resource_id:
  "(''resource_id'', JString s) \<in> set ms \<Longrightarrow> UnmarshalText s = None
     \<Longrightarrow> decodeAlertMembers uf ms a = None"
proof (induction ms arbitrary: a)
  case Nil
  then show ?case by simp
next
  case (Cons m ms)
  obtain k v where m: "m = (k, v)" by (cases m)
  show ?case
  proof (cases "m = (''resource_id'', JString s)")
    case True
    then show ?thesis
      using Cons.prems(2) by (simp add: fieldOf_resource_id setAlertField_def)
  next
    case False
    then have "(''resource_id'', JString s) \<in> set ms"
      using Cons.prems(1) by simp
    then have "decodeAlertMembers uf ms a' = None" for a'
      using Cons.IH Cons.prems(2) by blast
    then show ?thesis
      by (simp add: m split: option.splits)
  qed
qed

lemma those_None: "x \<in> set xs \<Longrightarrow> f x = None \<Longrightarrow> those (map f xs) = None"
  by (induction xs) (auto split: option.splits)

lemma Decode_Alerts_bad_resource_id:
  assumes "JObject ms \<in> set xs" "(''resource_id'', JString s) \<in> set ms" "UnmarshalText s = None"
  shows "Decode_Alerts uf (Some (JArray xs)) = None"
proof -
  have "decodeAlert uf (JObject ms) = None"
    using assms(2,3) by (simp add: decodeAlertMembers_bad_resource_id)
  then show ?thesis
    using assms(1) by (simp add: those_None)
qed

lemma UnmarshalText_r1: "UnmarshalText ''r1'' = None"
  by (simp add: UnmarshalText_def)

lemma UnmarshalText_room: "UnmarshalText ''6ba7b810-9dad-11d1-80b4-00c04fd430c8'' = Some room"
  by (simp add: UnmarshalText_def parseBody_def canonicalOffsets_def hexByteAt_def
        fromHexChar_def room_def)

lemma Unmarshal_roomMessage: "Unmarshal_Event uf roomMessage = Some roomEvent"
  by (simp add: roomMessage_def roomEvent_def zeroEvent_def fieldOf_def eventFields_def
        setEventField_def)

lemma Decode_roomDirectory: "Decode_Alerts uf roomDirectory = Some [bob, eve]"
  by (simp add: roomDirectory_def fieldOf_def alertFields_def setAlertField_def zeroAlert_def
        UnmarshalText_room bob_def eve_def)

lemma Decode_brokenDirectory:
  "Decode_Alerts uf brokenDirectory = Some [eve\<lparr>Email := ''bob@''\<rparr>, eve]"
  by (simp add: brokenDirectory_def fieldOf_def alertFields_def setAlertField_def zeroAlert_def
        eve_def)

section \<open>Properties of fetchAlerts and processMessage\<close>

lemma fetchAlerts_failures:
  "(http_Get w (configURL w) = TransportError e \<longrightarrow> fetchAlerts w = Inl (ErrGet e))
   \<and> (http_Get w (configURL w) = Response status body \<and> status \<noteq> 200 \<longrightarrow>
        fetchAlerts w = Inl (ErrStatusCode status))
   \<and> (http_Get w (configURL w) = Response 200 body \<and> Decode_Alerts (unicodeFold w) body = None \<longrightarrow>
        fetchAlerts w = Inl ErrDecode)"
  by (simp add: fetchAlerts_def)

lemma processMessage_fetch_failed:
  assumes "fetchAlerts w = Inl err"
  shows "renders (fst (processMessage w data)) = []"
    and "sends (fst (processMessage w data)) = []"
    and "posts (fst (processMessage w data)) = []"
    and "snd (processMessage w data) = None"
    and "Unmarshal_Event (unicodeFold w) data = Some event \<Longrightarrow>
           logs (fst (processMessage w data))
             = [LogReceived (Id event) (LastModified event = []), LogFetchError err]"
  using assms
  by (simp_all add: processMessage_def logLine_def emptyTrace_def Let_def split: option.splits)

lemma renders_processAlert:
  "set (renders (fst (processAlert w event isNew alert t)))
     \<subseteq> insert (templatePath, event, isNew) (set (renders t))"
  by (auto simp: processAlert_def logLine_def Let_def split: sum.splits prod.splits option.splits)

lemma renders_processAlerts:
  "set (renders (fst (processAlerts w event isNew alerts t)))
     \<subseteq> insert (templatePath, event, isNew) (set (renders t))"
proof (induction alerts arbitrary: t)
  case Nil
  then show ?case by auto
next
  case (Cons a as)
  obtain t' p where step: "processAlert w event isNew a t = (t', p)"
    by (cases "processAlert w event isNew a t")
  have sub: "set (renders t') \<subseteq> insert (templatePath, event, isNew) (set (renders t))"
    using renders_processAlert [of w event isNew a t] by (simp add: step)
  show ?case
  proof (cases p)
    case None
    then show ?thesis
      using Cons.IH [of t'] sub by (auto simp: step)
  next
    case (Some q)
    then show ?thesis using sub by (simp add: step)
  qed
qed

lemma logs_processAlert:
  "\<exists>ls. logs (fst (processAlert w event isNew alert t)) = logs t @ ls"
  by (auto simp: processAlert_def logLine_def Let_def split: sum.splits prod.splits option.splits)

lemma logs_processAlerts:
  "\<exists>ls. logs (fst (processAlerts w event isNew alerts t)) = logs t @ ls"
proof (induction alerts arbitrary: t)
  case Nil
  then show ?case by simp
next
  case (Cons a as)
  obtain t' p where step: "processAlert w event isNew a t = (t', p)"
    by (cases "processAlert w event isNew a t")
  obtain ls where ls: "logs t' = logs t @ ls"
    using logs_processAlert [of w event isNew a t] by (auto simp: step)
  show ?case
  proof (cases p)
    case None
    obtain ls' where "logs (fst (processAlerts w event isNew as t')) = logs t' @ ls'"
      using Cons.IH [of t'] by blast
    then show ?thesis by (simp add: step None ls)
  next
    case (Some q)
    then show ?thesis by (simp add: step ls)
  qed
qed

lemma applies_bob: "applies uf roomEvent bob"
proof -
  have "map asciiLower ''6BA7B810-9DAD-11D1-80B4-00C04FD430C8'' = UUID_String room"
    by (simp add: UUID_String_room asciiLower_def char_of_eq_iff)
  then show ?thesis
    by (simp add: applies_def bob_def roomEvent_def EqualFold_UUID_String)
qed

lemma applies_eve: "applies uf event (eve\<lparr>Email := to\<rparr>)"
  by (simp add: applies_def eve_def)

lemma maskEmail_no_domain: "maskEmail ''bob@'' = Inl (IndexOutOfRange (- 1) 0)"
  using maskEmail_empty_domain [of "''bob''"] by simp

lemma fetchAlerts_roomDirectory:
  "http_Get w (configURL w) = Response 200 roomDirectory \<Longrightarrow> fetchAlerts w = Inr [bob, eve]"
  by (simp add: fetchAlerts_def Decode_roomDirectory)

text \<open>One turn of the loop on an alert that applies and whose address can be masked.\<close>

lemma processAlert_rendered:
  assumes "applies (unicodeFold w) event alert"
    and "GetStringFromEmbeddedTemplate w templatePath (event, isNew) = Inr (content, matter)"
    and "maskEmail (Email alert) = Inr masked"
  shows "snd (processAlert w event isNew alert t) = None"
    and "renders (fst (processAlert w event isNew alert t))
           = renders t @ [(templatePath, event, isNew)]"
    and "sends (fst (processAlert w event isNew alert t))
           = sends t @ [(Email alert, Subject matter, content)]"
  using assms
  by (simp_all add: processAlert_def logLine_def Let_def split: prod.splits option.splits)

lemma processAlert_render_failed:
  assumes "applies (unicodeFold w) event alert"
    and "GetStringFromEmbeddedTemplate w templatePath (event, isNew) = Inl err"
  shows "processAlert w event isNew alert t
           = (t\<lparr>renders := renders t @ [(templatePath, event, isNew)],
                logs := logs t @ [LogTemplateError (AlertId alert) err]\<rparr>, None)"
  using assms by (simp add: processAlert_def logLine_def Let_def)

lemma processAlert_maskable:
  "maskEmail (Email alert) = Inr masked \<Longrightarrow> snd (processAlert w event isNew alert t) = None"
  by (simp add: processAlert_def Let_def split: sum.splits prod.splits option.splits)

text \<open>
  While the addresses can be masked, no failure of rendering or of sending ends the
  loop: the alerts that follow are processed from the trace the first ones left.
\<close>

lemma processAlerts_continues:
  assumes "\<forall>a \<in> set xs. \<exists>masked. maskEmail (Email a) = Inr masked"
  shows "snd (processAlerts w event isNew xs t) = None
         \<and> processAlerts w event isNew (xs @ ys) t
             = processAlerts w event isNew ys (fst (processAlerts w event isNew xs t))"
  using assms
proof (induction xs arbitrary: t)
  case Nil
  then show ?case by simp
next
  case (Cons a as)
  obtain masked where "maskEmail (Email a) = Inr masked"
    using Cons.prems by auto
  then have "snd (processAlert w event isNew a t) = None"
    by (rule processAlert_maskable)
  then obtain t' where step: "processAlert w event isNew a t = (t', None)"
    by (cases "processAlert w event isNew a t") simp
  show ?case
    using Cons.IH [of t'] Cons.prems by (simp add: step)
qed

lemma GetString_serviceWorld:
  "GetStringFromEmbeddedTemplate (serviceWorld directory mailAPI) path body
     = Inr (''Bonjour'', \<lparr>Subject = ''Alerte''\<rparr>)"
  by (simp add: GetStringFromEmbeddedTemplate_def serviceWorld_def)

lemma sendEmail_serviceWorld:
  "sendEmail (serviceWorld directory mailAPI) hist to ''Alerte'' ''Bonjour''
     = (case mailAPI hist (mailTo to) of
          TransportError err \<Rightarrow> (Some (ErrDo err), [mailTo to])
        | Response status body \<Rightarrow>
            if status \<noteq> 204 then (Some (ErrStatus status body), [mailTo to])
            else (None, [mailTo to]))"
  by (simp add: sendEmail_def serviceWorld_def json_Marshal_def mailTo_def Let_def
        split: http_result.split)

lemma refuseBob_bob: "refuseBob hist (mailTo ''bob@x.com'') = Response 500 ''refused''"
  by (simp add: refuseBob_def recipientOf_def mailTo_def)

lemma refuseBob_eve: "refuseBob hist (mailTo ''eve@x.com'') = Response 204 []"
  by (simp add: refuseBob_def recipientOf_def mailTo_def)

lemma processMessage_refuseBob:
  "processMessage (serviceWorld (Response 200 roomDirectory) refuseBob) roomMessage
     = (\<lparr>logs = [LogReceived ''ev-1'' True,
                 LogSendFailure ''b***@***m'' None (ErrStatus 500 ''refused''),
                 LogSent ''e***@***m''],
         renders = [(templatePath, roomEvent, True), (templatePath, roomEvent, True)],
         sends = [(''bob@x.com'', ''Alerte'', ''Bonjour''), (''eve@x.com'', ''Alerte'', ''Bonjour'')],
         posts = [mailTo ''bob@x.com'', mailTo ''eve@x.com'']\<rparr>, None)"
proof -
  let ?w = "serviceWorld (Response 200 roomDirectory) refuseBob"
  have dir: "http_Get ?w (configURL ?w) = Response 200 roomDirectory"
    by (simp add: serviceWorld_def)
  have run: "processMessage ?w roomMessage
      = processAlerts ?w roomEvent True [bob, eve] (logLine (LogReceived ''ev-1'' True) emptyTrace)"
    using fetchAlerts_roomDirectory [OF dir]
    by (simp add: processMessage_def Unmarshal_roomMessage roomEvent_def zeroEvent_def)
  have e: "applies (unicodeFold ?w) roomEvent eve"
    using applies_eve [of "unicodeFold ?w" roomEvent "''eve@x.com''"] by (simp add: eve_def)
  have Eb: "Email bob = ''bob@x.com''" "AlertId bob = None" by (simp_all add: bob_def)
  have Ee: "Email eve = ''eve@x.com''" "AlertId eve = None" by (simp_all add: eve_def)
  show ?thesis
    by (simp add: run processAlert_def applies_bob e GetString_serviceWorld sendEmail_serviceWorld
          Eb Ee refuseBob_bob refuseBob_eve maskEmail_bob maskEmail_eve logLine_def emptyTrace_def)
qed

lemma processMessage_brokenDirectory:
  "processMessage (serviceWorld (Response 200 brokenDirectory) refuseAll) roomMessage
     = (\<lparr>logs = [LogReceived ''ev-1'' True],
         renders = [(templatePath, roomEvent, True)],
         sends = [(''bob@'', ''Alerte'', ''Bonjour'')],
         posts = [mailTo ''bob@'']\<rparr>, Some (IndexOutOfRange (- 1) 0))"
proof -
  let ?w = "serviceWorld (Response 200 brokenDirectory) refuseAll"
  have "fetchAlerts ?w = Inr [eve\<lparr>Email := ''bob@''\<rparr>, eve]"
    by (simp add: fetchAlerts_def serviceWorld_def Decode_brokenDirectory)
  then have run: "processMessage ?w roomMessage
      = processAlerts ?w roomEvent True [eve\<lparr>Email := ''bob@''\<rparr>, eve]
          (logLine (LogReceived ''ev-1'' True) emptyTrace)"
    by (simp add: processMessage_def Unmarshal_roomMessage roomEvent_def zeroEvent_def)
  show ?thesis
    by (simp add: run processAlert_def applies_eve GetString_serviceWorld sendEmail_serviceWorld
          refuseAll_def maskEmail_no_domain logLine_def emptyTrace_def)
qed

section \<open>The claims\<close>

text \<open>
  C1. For every event and every subscription, the condition of the loop is the
  predicate of the specification: it holds exactly when the flag \<open>all\<close> is set, or
  the subscription has a resource identifier and the resource identifier of the event
  equals its canonical text up to the case of letters. Whatever the other fields are,
  a subscription with the flag unset and no resource identifier does not match.
\<close>

theorem C1_matches:
  "applies uf event sub = matches_spec event sub
   \<and> \<not> applies uf event (sub\<lparr>All' := False, ResourceId := None\<rparr>)"
  by (simp add: applies_def matches_spec_def equalsIgnoreCase_def EqualFold_UUID_String
        asciiLower_UUID_String split: option.split)

theorem C1_matches_witness:
  "applies noFold roomEvent bob \<and> matches_spec roomEvent bob
   \<and> \<not> applies noFold roomEvent (bob\<lparr>All' := False, ResourceId := None\<rparr>)"
  using C1_matches [of noFold roomEvent bob]
  by (simp add: matches_spec_def equalsIgnoreCase_def bob_def roomEvent_def UUID_String_room
        asciiLower_def char_of_eq_iff)

text \<open>
  C2 fails on the code. The directory lists bob with the address \<open>bob@\<close>, then eve;
  the mail API refuses every mail. The mail to bob is rendered and sent, the dispatch
  fails, and \<open>maskEmail\<close> panics while the line that reports the failure is being
  built: nothing is logged for bob, and eve gets neither a render nor a dispatch.
\<close>

theorem C2_isolation_broken:
  "processMessage (serviceWorld (Response 200 brokenDirectory) refuseAll) roomMessage
     = (\<lparr>logs = [LogReceived ''ev-1'' True],
         renders = [(templatePath, roomEvent, True)],
         sends = [(''bob@'', ''Alerte'', ''Bonjour'')],
         posts = [mailTo ''bob@'']\<rparr>, Some (IndexOutOfRange (- 1) 0))"
  by (rule processMessage_brokenDirectory)

text \<open>
  C3, as amended. The event is of the room \<open>6BA7B810-9DAD-11D1-80B4-00C04FD430C8\<close>
  and the directory answers 200 with bob, subscribed to
  \<open>6ba7b810-9dad-11d1-80b4-00c04fd430c8\<close>, and eve, subscribed to everything. Then
  \<open>processMessage\<close> returns after exactly two renders, one for each subscription,
  and, when rendering succeeds, after exactly two calls of \<open>sendEmail\<close>, to bob and
  then to eve, whatever the mail API answers to either.
\<close>

theorem C3_two_attempts_amended:
  "http_Get w (configURL w) = Response 200 roomDirectory \<longrightarrow>
     snd (processMessage w roomMessage) = None
     \<and> renders (fst (processMessage w roomMessage))
          = [(templatePath, roomEvent, True), (templatePath, roomEvent, True)]
     \<and> (GetStringFromEmbeddedTemplate w templatePath (roomEvent, True) = Inr (content, matter) \<longrightarrow>
          sends (fst (processMessage w roomMessage))
            = [(''bob@x.com'', Subject matter, content), (''eve@x.com'', Subject matter, content)])"
proof (intro impI)
  assume dir: "http_Get w (configURL w) = Response 200 roomDirectory"
  let ?t = "logLine (LogReceived ''ev-1'' True) emptyTrace"
  have run: "processMessage w roomMessage = processAlerts w roomEvent True [bob, eve] ?t"
    using fetchAlerts_roomDirectory [OF dir]
    by (simp add: processMessage_def Unmarshal_roomMessage roomEvent_def zeroEvent_def)
  have b: "applies (unicodeFold w) roomEvent bob" by (rule applies_bob)
  have e: "applies (unicodeFold w) roomEvent eve"
    using applies_eve [of "unicodeFold w" roomEvent "''eve@x.com''"] by (simp add: eve_def)
  have mb: "maskEmail (Email bob) = Inr ''b***@***m''" by (simp add: bob_def maskEmail_bob)
  have me: "maskEmail (Email eve) = Inr ''e***@***m''" by (simp add: eve_def maskEmail_eve)
  show "snd (processMessage w roomMessage) = None
     \<and> renders (fst (processMessage w roomMessage))
          = [(templatePath, roomEvent, True), (templatePath, roomEvent, True)]
     \<and> (GetStringFromEmbeddedTemplate w templatePath (roomEvent, True) = Inr (content, matter) \<longrightarrow>
          sends (fst (processMessage w roomMessage))
            = [(''bob@x.com'', Subject matter, content), (''eve@x.com'', Subject matter, content)])"
  proof (cases "GetStringFromEmbeddedTemplate w templatePath (roomEvent, True)")
    case (Inl err)
    then show ?thesis
      by (simp add: run processAlert_render_failed [OF b Inl] processAlert_render_failed [OF e Inl]
            logLine_def emptyTrace_def)
  next
    case (Inr r)
    obtain c m where r: "r = (c, m)" by (cases r)
    note ok = Inr [unfolded r]
    obtain t1 where t1: "processAlert w roomEvent True bob ?t = (t1, None)"
      using processAlert_rendered(1) [OF b ok mb, of ?t]
      by (cases "processAlert w roomEvent True bob ?t") simp
    obtain t2 where t2: "processAlert w roomEvent True eve t1 = (t2, None)"
      using processAlert_rendered(1) [OF e ok me, of t1]
      by (cases "processAlert w roomEvent True eve t1") simp
    have "renders t1 = renders ?t @ [(templatePath, roomEvent, True)]"
      and "sends t1 = sends ?t @ [(Email bob, Subject m, c)]"
      using processAlert_rendered(2,3) [OF b ok mb, of ?t] by (simp_all only: t1 fst_conv)
    then have r1: "renders t1 = [(templatePath, roomEvent, True)]"
      and s1: "sends t1 = [(''bob@x.com'', Subject m, c)]"
      by (simp_all add: logLine_def emptyTrace_def bob_def)
    have "renders t2 = renders t1 @ [(templatePath, roomEvent, True)]"
      and "sends t2 = sends t1 @ [(Email eve, Subject m, c)]"
      using processAlert_rendered(2,3) [OF e ok me, of t1] by (simp_all only: t2 fst_conv)
    then have "renders t2 = [(templatePath, roomEvent, True), (templatePath, roomEvent, True)]"
      and "sends t2 = [(''bob@x.com'', Subject m, c), (''eve@x.com'', Subject m, c)]"
      by (simp_all add: r1 s1 eve_def)
    then show ?thesis
      using ok by (simp add: run t1 t2 Inr r)
  qed
qed

theorem C3_two_attempts_amended_witness:
  "sends (fst (processMessage (serviceWorld (Response 200 roomDirectory) refuseBob) roomMessage))
     = [(''bob@x.com'', ''Alerte'', ''Bonjour''), (''eve@x.com'', ''Alerte'', ''Bonjour'')]
   \<and> logs (fst (processMessage (serviceWorld (Response 200 roomDirectory) refuseBob) roomMessage))
     = [LogReceived ''ev-1'' True, LogSendFailure ''b***@***m'' None (ErrStatus 500 ''refused''),
        LogSent ''e***@***m'']"
  using C3_two_attempts_amended [of "serviceWorld (Response 200 roomDirectory) refuseBob"
      "''Bonjour''" "\<lparr>Subject = ''Alerte''\<rparr>"]
  by (simp add: processMessage_refuseBob)

text \<open>
  With the identifiers of the claim as stated, \<open>R1\<close> and \<open>r1\<close>, the directory
  body does not decode and nothing is rendered or sent.
\<close>

theorem C3_two_attempts_counterexample:
  "renders (fst (processMessage (serviceWorld (Response 200 r1Directory) refuseBob) r1Message)) = []
   \<and> sends (fst (processMessage (serviceWorld (Response 200 r1Directory) refuseBob) r1Message)) = []"
proof -
  have "Decode_Alerts noFold r1Directory = None"
    unfolding r1Directory_def
    by (rule Decode_Alerts_bad_resource_id [where s = "''r1''"
          and ms = "[(''all'', JBool False), (''resource_id'', JString ''r1''),
                     (''email'', JString ''bob@x.com'')]"])
       (simp_all add: UnmarshalText_r1)
  then have "fetchAlerts (serviceWorld (Response 200 r1Directory) refuseBob) = Inl ErrDecode"
    by (simp add: fetchAlerts_def serviceWorld_def)
  then show ?thesis
    by (simp add: processMessage_fetch_failed)
qed

text \<open>
  C4. \<open>fetchAlerts\<close> fails when the GET fails, when the status is not 200 and when
  the body does not decode as a list of alerts. Whenever it fails, \<open>processMessage\<close>
  returns with no render, no call of \<open>sendEmail\<close> and no request to the mail API,
  and, for a message that decodes, its log is the line of reception followed by the one
  error of the fetch.
\<close>

theorem C4_fetch_failure:
  "(http_Get w (configURL w) = TransportError e \<longrightarrow> fetchAlerts w = Inl (ErrGet e))
   \<and> (http_Get w (configURL w) = Response status body \<and> status \<noteq> 200 \<longrightarrow>
        fetchAlerts w = Inl (ErrStatusCode status))
   \<and> (http_Get w (configURL w) = Response 200 body \<and> Decode_Alerts (unicodeFold w) body = None \<longrightarrow>
        fetchAlerts w = Inl ErrDecode)
   \<and> (fetchAlerts w = Inl err \<longrightarrow>
        renders (fst (processMessage w data)) = []
        \<and> sends (fst (processMessage w data)) = []
        \<and> posts (fst (processMessage w data)) = []
        \<and> snd (processMessage w data) = None
        \<and> (Unmarshal_Event (unicodeFold w) data = Some event \<longrightarrow>
             logs (fst (processMessage w data))
               = [LogReceived (Id event) (LastModified event = []), LogFetchError err]))"
  using fetchAlerts_failures [of w e status body]
  by (simp add: processMessage_fetch_failed)

theorem C4_fetch_failure_witness:
  "processMessage (serviceWorld (TransportError ''timeout'') refuseAll) roomMessage
     = (\<lparr>logs = [LogReceived ''ev-1'' True, LogFetchError (ErrGet ''timeout'')], renders = [],
         sends = [], posts = []\<rparr>, None)
   \<and> processMessage (serviceWorld (Response 503 None) refuseAll) roomMessage
     = (\<lparr>logs = [LogReceived ''ev-1'' True, LogFetchError (ErrStatusCode 503)], renders = [],
         sends = [], posts = []\<rparr>, None)
   \<and> processMessage (serviceWorld (Response 200 None) refuseAll) roomMessage
     = (\<lparr>logs = [LogReceived ''ev-1'' True, LogFetchError ErrDecode], renders = [],
         sends = [], posts = []\<rparr>, None)"
  using
    C4_fetch_failure [of "serviceWorld (TransportError ''timeout'') refuseAll" "''timeout''" 0 None
      "ErrGet ''timeout''" roomMessage roomEvent]
    C4_fetch_failure [of "serviceWorld (Response 503 None) refuseAll" "[]" 503 None
      "ErrStatusCode 503" roomMessage roomEvent]
    C4_fetch_failure [of "serviceWorld (Response 200 None) refuseAll" "[]" 0 None
      ErrDecode roomMessage roomEvent]
  by (simp add: serviceWorld_def Unmarshal_roomMessage roomEvent_def zeroEvent_def
        prod_eq_iff trace.equality)

text \<open>
  C5. For a message that decodes to an event, the flag logged with the reception and
  the flag in the body of every render is the same value: whether the field
  \<open>LastModified\<close> of the event is the empty string.
\<close>

theorem C5_isNew:
  "Unmarshal_Event (unicodeFold w) data = Some event \<longrightarrow>
     hd (logs (fst (processMessage w data))) = LogReceived (Id event) (LastModified event = [])
     \<and> (\<forall>r \<in> set (renders (fst (processMessage w data))).
           r = (templatePath, event, LastModified event = []))"
proof (intro impI conjI ballI)
  assume ev: "Unmarshal_Event (unicodeFold w) data = Some event"
  show "hd (logs (fst (processMessage w data))) = LogReceived (Id event) (LastModified event = [])"
  proof (cases "fetchAlerts w")
    case (Inl err)
    then show ?thesis
      using ev by (simp add: processMessage_def logLine_def emptyTrace_def Let_def)
  next
    case (Inr alerts)
    obtain ls where "logs (fst (processAlerts w event (LastModified event = []) alerts
        (logLine (LogReceived (Id event) (LastModified event = [])) emptyTrace)))
        = logs (logLine (LogReceived (Id event) (LastModified event = [])) emptyTrace) @ ls"
      using logs_processAlerts by blast
    then show ?thesis
      using ev Inr by (simp add: processMessage_def logLine_def emptyTrace_def Let_def)
  qed
  fix r assume "r \<in> set (renders (fst (processMessage w data)))"
  then show "r = (templatePath, event, LastModified event = [])"
    using ev renders_processAlerts [of w event "LastModified event = []" _ "logLine (LogReceived (Id event) (LastModified event = [])) emptyTrace"]
    by (auto simp: processMessage_def logLine_def emptyTrace_def Let_def split: sum.splits)
qed

theorem C5_isNew_witness:
  "Unmarshal_Event noFold roomMessage = Some roomEvent
   \<and> hd (logs (fst (processMessage (serviceWorld (Response 200 roomDirectory) refuseBob)
        roomMessage))) = LogReceived ''ev-1'' True
   \<and> renders (fst (processMessage (serviceWorld (Response 200 roomDirectory) refuseBob)
        roomMessage)) = [(templatePath, roomEvent, True), (templatePath, roomEvent, True)]"
  using C5_isNew [of "serviceWorld (Response 200 roomDirectory) refuseBob" roomMessage roomEvent]
  by (simp add: Unmarshal_roomMessage processMessage_refuseBob)

text \<open>
  C6. \<open>sendEmail\<close> returns nil exactly when the token is set and the request it sent
  was answered with status 204; an answer with any other status is returned as an
  error that carries the status and the body; without a token it returns an error and
  sends no request.
\<close>

theorem C6_sendEmail:
  "(fst (sendEmail w hist to subject content) = None \<longleftrightarrow>
      MAIL_TOKEN w \<noteq> []
      \<and> (\<exists>req body. snd (sendEmail w hist to subject content) = [req]
            \<and> http_Do w hist req = Response 204 body))
   \<and> (snd (sendEmail w hist to subject content) = [req] \<and> http_Do w hist req = Response status body
        \<and> status \<noteq> 204 \<longrightarrow>
        fst (sendEmail w hist to subject content) = Some (ErrStatus status body))
   \<and> (MAIL_TOKEN w = [] \<longrightarrow>
        fst (sendEmail w hist to subject content) \<noteq> None
        \<and> snd (sendEmail w hist to subject content) = []
        \<and> (NewRequest_ok w (mailAPIURL w) \<longrightarrow>
             fst (sendEmail w hist to subject content) = Some ErrNoToken))"
  by (auto simp: sendEmail_def json_Marshal_def Let_def split: http_result.splits)

theorem C6_sendEmail_witness:
  "sendEmail (serviceWorld (Response 200 roomDirectory) refuseBob) [] ''eve@x.com'' ''Alerte''
       ''Bonjour'' = (None, [mailTo ''eve@x.com''])
   \<and> sendEmail (serviceWorld (Response 200 roomDirectory) refuseBob) [] ''bob@x.com'' ''Alerte''
       ''Bonjour'' = (Some (ErrStatus 500 ''refused''), [mailTo ''bob@x.com''])
   \<and> sendEmail ((serviceWorld (Response 200 roomDirectory) refuseBob)\<lparr>MAIL_TOKEN := []\<rparr>) []
       ''eve@x.com'' ''Alerte'' ''Bonjour'' = (Some ErrNoToken, [])"
proof -
  let ?w = "serviceWorld (Response 200 roomDirectory) refuseBob"
  have sent: "sendEmail ?w [] ''eve@x.com'' ''Alerte'' ''Bonjour'' = (None, [mailTo ''eve@x.com''])"
    by (simp add: sendEmail_serviceWorld refuseBob_eve)
  have refused: "sendEmail ?w [] ''bob@x.com'' ''Alerte'' ''Bonjour''
      = (Some (ErrStatus 500 ''refused''), [mailTo ''bob@x.com''])"
    by (simp add: sendEmail_serviceWorld refuseBob_bob)
  have token: "MAIL_TOKEN (?w\<lparr>MAIL_TOKEN := []\<rparr>) = []"
    and url: "NewRequest_ok (?w\<lparr>MAIL_TOKEN := []\<rparr>) (mailAPIURL (?w\<lparr>MAIL_TOKEN := []\<rparr>))"
    by (simp_all add: serviceWorld_def)
  show ?thesis
    using
      C6_sendEmail [of ?w "[]" "''eve@x.com''" "''Alerte''" "''Bonjour''" "mailTo ''eve@x.com''"
        204 "[]"]
      C6_sendEmail [of ?w "[]" "''bob@x.com''" "''Alerte''" "''Bonjour''" "mailTo ''bob@x.com''"
        500 "''refused''"]
      C6_sendEmail [of "?w\<lparr>MAIL_TOKEN := []\<rparr>" "[]" "''eve@x.com''" "''Alerte''" "''Bonjour''"
        "mailTo ''eve@x.com''" 204 "[]"]
      token url
    by (simp only: sent refused prod_eq_iff fst_conv snd_conv) simp
qed

text \<open>
  C7. \<open>formatICalDate\<close> returns a string on every input. On
  \<open>20240115T093000Z\<close> it returns \<open>15/01/2024 09:30\<close>; on every input that
  \<open>time.Parse\<close> refuses in the layout, such as \<open>not-a-date\<close>, it returns the
  input unchanged; and on every timestamp written as four digits of year, two of month,
  two of day, \<open>T\<close>, two of hour, two of minute, two of second and \<open>Z\<close>, with each
  number in its range, it returns day, month and year separated by \<open>/\<close>, a space, and
  hour and minute separated by \<open>:\<close>.
\<close>

theorem C7_formatICalDate:
  "formatICalDate ''20240115T093000Z'' = ''15/01/2024 09:30''
   \<and> (time_Parse input = None \<longrightarrow> formatICalDate input = input)
   \<and> time_Parse ''not-a-date'' = None
   \<and> (y < 10000 \<and> 1 \<le> mo \<and> mo \<le> 12 \<and> 1 \<le> d \<and> d \<le> daysIn mo y \<and> h < 24 \<and> mi < 60 \<and> se < 60 \<longrightarrow>
        formatICalDate (pad4 y @ pad2 mo @ pad2 d @ ''T'' @ pad2 h @ pad2 mi @ pad2 se @ ''Z'')
          = pad2 d @ ''/'' @ pad2 mo @ ''/'' @ pad4 y @ '' '' @ pad2 h @ '':'' @ pad2 mi)"
proof (intro conjI impI)
  show "formatICalDate ''20240115T093000Z'' = ''15/01/2024 09:30''"
    by (rule formatICalDate_example)
  show "time_Parse ''not-a-date'' = None"
    by (rule time_Parse_not_a_date)
next
  assume "time_Parse input = None"
  then show "formatICalDate input = input"
    by (simp add: formatICalDate_def)
next
  assume "y < 10000 \<and> 1 \<le> mo \<and> mo \<le> 12 \<and> 1 \<le> d \<and> d \<le> daysIn mo y \<and> h < 24 \<and> mi < 60 \<and> se < 60"
  then have "time_Parse (pad4 y @ pad2 mo @ pad2 d @ ''T'' @ pad2 h @ pad2 mi @ pad2 se @ ''Z'')
           = Some \<lparr>year = y, month = mo, day = d, hour = h, minute = mi, second = se, nsec = 0\<rparr>"
    by (intro time_Parse_fields) simp_all
  then show "formatICalDate (pad4 y @ pad2 mo @ pad2 d @ ''T'' @ pad2 h @ pad2 mi @ pad2 se @ ''Z'')
          = pad2 d @ ''/'' @ pad2 mo @ ''/'' @ pad4 y @ '' '' @ pad2 h @ '':'' @ pad2 mi"
    by (simp add: formatICalDate_def time_Format_def)
qed

theorem C7_formatICalDate_witness:
  "time_Parse ''not-a-date'' = None \<and> formatICalDate ''not-a-date'' = ''not-a-date''
   \<and> formatICalDate ''19991231T235959Z'' = ''31/12/1999 23:59''"
  using C7_formatICalDate [of "''not-a-date''" 1999 12 31 23 59 59]
  by (simp add: pad2_def pad4_def digitChar_values daysIn_def)

text \<open>
  C8, as amended. An address with exactly one \<open>@\<close>, a local part \<open>l\<close> and a domain
  \<open>d\<close> that are both non-empty, is masked as \<open>string(b1)\<close>, then \<open>***@***\<close>, then
  \<open>string(b2)\<close>, where \<open>b1\<close> is the first byte of the local part and \<open>b2\<close> the
  last byte of the domain; when these two bytes are ASCII this is the first character of
  the local part, the mask and the last character of the domain, as for
  \<open>alice@example.com\<close>. A string that does not contain exactly one \<open>@\<close> is masked
  as \<open>***@***\<close>.
\<close>

theorem C8_maskEmail_amended:
  "(CHR ''@'' \<notin> set l \<and> CHR ''@'' \<notin> set d \<and> l \<noteq> [] \<and> d \<noteq> [] \<longrightarrow>
      maskEmail (l @ CHR ''@'' # d)
        = Inr (string_of_byte (hd l) @ ''***@***'' @ string_of_byte (last d))
      \<and> ((of_char (hd l) :: nat) < 0x80 \<and> (of_char (last d) :: nat) < 0x80 \<longrightarrow>
           maskEmail (l @ CHR ''@'' # d) = Inr (hd l # ''***@***'' @ [last d])))
   \<and> (count_list email CHR ''@'' \<noteq> 1 \<longrightarrow> maskEmail email = Inr ''***@***'')
   \<and> maskEmail ''alice@example.com'' = Inr ''a***@***m''"
proof (intro conjI impI)
  assume h: "CHR ''@'' \<notin> set l \<and> CHR ''@'' \<notin> set d \<and> l \<noteq> [] \<and> d \<noteq> []"
  then show full: "maskEmail (l @ CHR ''@'' # d)
        = Inr (string_of_byte (hd l) @ ''***@***'' @ string_of_byte (last d))"
    by (simp add: maskEmail_one_at)
  assume "(of_char (hd l) :: nat) < 0x80 \<and> (of_char (last d) :: nat) < 0x80"
  then show "maskEmail (l @ CHR ''@'' # d) = Inr (hd l # ''***@***'' @ [last d])"
    by (simp add: full string_of_byte_ascii)
next
  assume "count_list email CHR ''@'' \<noteq> 1"
  then show "maskEmail email = Inr ''***@***''"
    by (simp add: maskEmail_def length_Split)
next
  show "maskEmail ''alice@example.com'' = Inr ''a***@***m''"
    using maskEmail_one_at [of "''alice''" "''example.com''"] by (simp add: string_of_byte_ascii)
qed

theorem C8_maskEmail_amended_witness:
  "maskEmail ''bob@x.com'' = Inr ''b***@***m'' \<and> maskEmail ''a@b@c'' = Inr ''***@***''
   \<and> maskEmail ''nobody'' = Inr ''***@***''"
  using C8_maskEmail_amended [of "''bob''" "''x.com''" "''a@b@c''"]
    C8_maskEmail_amended [of "''bob''" "''x.com''" "''nobody''"]
  by simp

text \<open>
  The claim as stated fails where the local part is empty (the function panics) and
  where the first byte is not ASCII (the output starts with the encoding of the code
  point numbered by that byte, not with the first character).
\<close>

theorem C8_maskEmail_counterexample:
  "count_list ''@example.com'' CHR ''@'' = 1
   \<and> maskEmail ''@example.com'' = Inl (IndexOutOfRange 0 0)
   \<and> count_list [CHR 0xC3, CHR 0xA9, CHR ''@'', CHR ''x''] CHR ''@'' = 1
   \<and> maskEmail [CHR 0xC3, CHR 0xA9, CHR ''@'', CHR ''x'']
       = Inr ([CHR 0xC3, CHR 0x83] @ ''***@***x'')"
  using maskEmail_empty_local [of "''example.com''"]
    maskEmail_one_at [of "[CHR 0xC3, CHR 0xA9]" "''x''"]
  by (simp add: string_of_byte_def RuneSelf_def char_of_eq_iff)

text \<open>
  C9. When the body of the directory's answer is an array in which some object has a
  member \<open>resource_id\<close> whose value is a string that \<open>UnmarshalText\<close> refuses,
  \<open>fetchAlerts\<close> fails, with the decoding error when the status is 200 (with the
  error of the status otherwise), and \<open>processMessage\<close> renders nothing and sends
  nothing, whatever the other elements of the array are.
\<close>

theorem C9_invalid_resource_id:
  "http_Get w (configURL w) = Response status (Some (JArray xs)) \<and> JObject ms \<in> set xs
     \<and> (''resource_id'', JString s) \<in> set ms \<and> UnmarshalText s = None \<longrightarrow>
   fetchAlerts w = Inl (if status = 200 then ErrDecode else ErrStatusCode status)
   \<and> renders (fst (processMessage w data)) = []
   \<and> sends (fst (processMessage w data)) = []
   \<and> posts (fst (processMessage w data)) = []"
proof (intro impI)
  assume h: "http_Get w (configURL w) = Response status (Some (JArray xs)) \<and> JObject ms \<in> set xs
     \<and> (''resource_id'', JString s) \<in> set ms \<and> UnmarshalText s = None"
  then have "Decode_Alerts (unicodeFold w) (Some (JArray xs)) = None"
    by (intro Decode_Alerts_bad_resource_id [of ms xs s]) simp_all
  with h have failed:
    "fetchAlerts w = Inl (if status = 200 then ErrDecode else ErrStatusCode status)"
    by (simp add: fetchAlerts_def)
  then show "fetchAlerts w = Inl (if status = 200 then ErrDecode else ErrStatusCode status)
   \<and> renders (fst (processMessage w data)) = []
   \<and> sends (fst (processMessage w data)) = []
   \<and> posts (fst (processMessage w data)) = []"
    by (simp add: processMessage_fetch_failed)
qed

theorem C9_invalid_resource_id_witness:
  "UnmarshalText ''r1'' = None
   \<and> fetchAlerts (serviceWorld (Response 200 r1Directory) refuseBob) = Inl ErrDecode
   \<and> renders (fst (processMessage (serviceWorld (Response 200 r1Directory) refuseBob) r1Message)) = []
   \<and> sends (fst (processMessage (serviceWorld (Response 200 r1Directory) refuseBob) r1Message)) = []
   \<and> posts (fst (processMessage (serviceWorld (Response 200 r1Directory) refuseBob) r1Message)) = []"
  using C9_invalid_resource_id [of "serviceWorld (Response 200 r1Directory) refuseBob" 200
      "[JObject [(''all'', JBool False), (''resource_id'', JString ''r1''),
               (''email'', JString ''bob@x.com'')],
      JObject [(''all'', JBool True), (''email'', JString ''eve@x.com'')]]"
      "[(''all'', JBool False), (''resource_id'', JString ''r1''), (''email'', JString ''bob@x.com'')]"
      "''r1''" r1Message]
  by (simp add: serviceWorld_def r1Directory_def UnmarshalText_r1)

text \<open>
  C10. \<open>maskEmail\<close> is partial: on every address with one \<open>@\<close> and an empty local
  part it reads byte 0 of an empty string, and on every address with one \<open>@\<close> and an
  empty domain it reads byte \<open>-1\<close> of an empty string. Both are panics; the fallback
  mask is not returned, for example on \<open>@example.com\<close> and on \<open>alice@\<close>.
\<close>

theorem C10_maskEmail_panics:
  "(CHR ''@'' \<notin> set d \<longrightarrow> maskEmail (CHR ''@'' # d) = Inl (IndexOutOfRange 0 0))
   \<and> (CHR ''@'' \<notin> set l \<and> l \<noteq> [] \<longrightarrow> maskEmail (l @ ''@'') = Inl (IndexOutOfRange (- 1) 0))
   \<and> maskEmail ''@example.com'' \<noteq> Inr ''***@***''
   \<and> maskEmail ''alice@'' \<noteq> Inr ''***@***''"
  using maskEmail_empty_local [of "''example.com''"] maskEmail_empty_domain [of "''alice''"]
  by (simp add: maskEmail_empty_local maskEmail_empty_domain)

theorem C10_maskEmail_panics_witness:
  "maskEmail ''@example.com'' = Inl (IndexOutOfRange 0 0)
   \<and> maskEmail ''alice@'' = Inl (IndexOutOfRange (- 1) 0)"
  using C10_maskEmail_panics [of "''example.com''" "''alice''"]
  by simp

end
